theory Spec2Isabelle
  imports Complex_Main "HOL-Library.Log_Nat"
begin

section \<open>JavaScript numbers and the random source\<close>

text \<open>
  A JavaScript number is modelled by the real it stands for. The arithmetic is exact
  arithmetic on these reals, but for the speed ramp of the runner, whose sum builds
  up over thousands of frames: that one is modelled with its rounding (below).
  \<open>Math.floor\<close> is \<open>\<lfloor>_\<rfloor>\<close>; \<open>Math.round\<close> rounds halves towards plus infinity.
  \<open>Math.random()\<close> reads the next element of a sequence \<open>rnd\<close> of reals in \<open>[0, 1)\<close>:
  a function that draws takes the sequence and the position of the next unread
  element, and returns the new position.
\<close>

type_synonym random_source = "nat \<Rightarrow> real"

definition valid_random :: "random_source \<Rightarrow> bool" where
  "valid_random rnd = (\<forall>i. 0 \<le> rnd i \<and> rnd i < 1)"

definition Math_round :: "real \<Rightarrow> int" where
  "Math_round v = \<lfloor>v + 1 / 2\<rfloor>"

text \<open>\<open>getRandomNum(min, max)\<close>:
  \<^verbatim>\<open>return Math.floor(Math.random() * (max - min + 1)) + min;\<close>\<close>

definition getRandomNum :: "real \<Rightarrow> int \<Rightarrow> int \<Rightarrow> int" where
  "getRandomNum r mn mx = \<lfloor>r * real_of_int (mx - mn + 1)\<rfloor> + mn"

subsection \<open>Arithmetic with rounding\<close>

text \<open>
  The sum that the speed ramp accumulates is modelled with the rounding of the
  binary64 format: a number is kept as the real it stands for, and the result of an
  operation is the exact result rounded to the nearest number with a significand of
  53 bits, a tie going to the even significand. \<open>binade x\<close> is the exponent \<open>e\<close> with
  \<open>2\<^sup>e \<le> \<bar>x\<bar> < 2\<^sup>e\<^sup>+\<^sup>1\<close>. The bounds of the exponent (overflow to \<open>Infinity\<close> from
  \<open>2\<^sup>1\<^sup>0\<^sup>2\<^sup>4\<close>, subnormal numbers below \<open>2\<^sup>-\<^sup>1\<^sup>0\<^sup>2\<^sup>2\<close>) and \<open>NaN\<close> are left out.
  A decimal literal of the source, such as \<^verbatim>\<open>0.001\<close>, is \<open>double_of\<close> its value.
\<close>

definition pow2 :: "int \<Rightarrow> real" where
  "pow2 e = (if 0 \<le> e then 2 ^ nat e else 1 / 2 ^ nat (- e))"

definition binade :: "real \<Rightarrow> int" where
  "binade x = (if 1 \<le> \<bar>x\<bar> then bitlen \<lfloor>\<bar>x\<bar>\<rfloor> - 1 else - bitlen (\<lceil>1 / \<bar>x\<bar>\<rceil> - 1))"

definition round_ties_even :: "real \<Rightarrow> int" where
  "round_ties_even x =
     (let f = \<lfloor>x\<rfloor>; r = x - real_of_int f
      in if r < 1 / 2 then f else if 1 / 2 < r then f + 1 else if even f then f else f + 1)"

definition double_of :: "real \<Rightarrow> real" where
  "double_of x =
     (if x = 0 then 0
      else (let ulp = pow2 (binade x - 52) in real_of_int (round_ties_even (x / ulp)) * ulp))"

text \<open>\<open>a + b\<close>, \<open>a * b\<close> and \<open>a / b\<close> (for \<open>b \<noteq> 0\<close>) on numbers.\<close>

definition js_add :: "real \<Rightarrow> real \<Rightarrow> real" where
  "js_add a b = double_of (a + b)"

definition js_mul :: "real \<Rightarrow> real \<Rightarrow> real" where
  "js_mul a b = double_of (a * b)"

definition js_div :: "real \<Rightarrow> real \<Rightarrow> real" where
  "js_div a b = double_of (a / b)"

subsection \<open>Exceptions and arrays\<close>

text \<open>What a call can throw; a RangeError is what an exhausted call stack gives.\<close>

datatype js_error = TypeError | RangeError | AssertionFailed string

text \<open>Array read \<open>xs[i]\<close>: \<open>None\<close> stands for \<open>undefined\<close> (index out of range).\<close>

definition js_index :: "'a list \<Rightarrow> int \<Rightarrow> 'a option" where
  "js_index xs i = (if 0 \<le> i \<and> i < int (length xs) then Some (xs ! nat i) else None)"

section \<open>T-Rex runner: collision detection\<close>

record CollisionBox =
  cb_x :: real
  cb_y :: real
  cb_width :: real
  cb_height :: real

definition new_CollisionBox :: "real \<Rightarrow> real \<Rightarrow> real \<Rightarrow> real \<Rightarrow> CollisionBox" where
  "new_CollisionBox bx by w h = \<lparr>cb_x = bx, cb_y = by, cb_width = w, cb_height = h\<rparr>"

text \<open>\<open>boxCompare\<close>: the axis-aligned bounding box test.\<close>

definition boxCompare :: "CollisionBox \<Rightarrow> CollisionBox \<Rightarrow> bool" where
  "boxCompare tRexBox obstacleBox =
     (cb_x tRexBox < cb_x obstacleBox + cb_width obstacleBox \<and>
      cb_x tRexBox + cb_width tRexBox > cb_x obstacleBox \<and>
      cb_y tRexBox < cb_y obstacleBox + cb_height obstacleBox \<and>
      cb_height tRexBox + cb_y tRexBox > cb_y obstacleBox)"

definition createAdjustedCollisionBox :: "CollisionBox \<Rightarrow> CollisionBox \<Rightarrow> CollisionBox" where
  "createAdjustedCollisionBox box adjustment =
     new_CollisionBox (cb_x box + cb_x adjustment) (cb_y box + cb_y adjustment)
       (cb_width box) (cb_height box)"

subsection \<open>Obstacle type tables, obstacles, the t-rex\<close>

text \<open>\<open>yPos\<close> of an obstacle type is a number, or an array together with \<open>yPosMobile\<close>.\<close>

datatype yPos_config = FixedY real | VariableY "real list" "real list"

text \<open>An entry of \<open>Obstacle.types\<close>. \<open>multipleSpeed\<close> and \<open>speedOffset\<close> are optional.\<close>

record ObstacleType =
  t_type :: string
  t_width :: real
  t_height :: real
  t_yPos :: yPos_config
  t_multipleSpeed :: "real option"
  t_minGap :: real
  t_minSpeed :: real
  t_collisionBoxes :: "CollisionBox list"
  t_speedOffset :: "real option"

text \<open>The statics the obstacle code reads: \<open>Runner.slowDown\<close>, \<open>Runner.audioCues\<close>,
  \<open>Runner.isAltGameModeEnabled()\<close>, \<open>IS_MOBILE\<close>, \<open>Obstacle.MAX_OBSTACLE_LENGTH\<close>,
  \<open>Obstacle.MAX_GAP_COEFFICIENT\<close>, \<open>Obstacle.types\<close> and
  \<open>Runner.spriteDefinition.TREX.COLLISION_BOXES\<close>.\<close>

record Statics =
  slowDown :: bool
  audioCues :: bool
  isAltGameModeEnabled :: bool
  IS_MOBILE :: bool
  MAX_OBSTACLE_LENGTH :: int
  MAX_GAP_COEFFICIENT :: real
  Obstacle_types :: "ObstacleType list"
  TREX_COLLISION_BOXES :: "CollisionBox list"

text \<open>\<open>yPos\<close> of an obstacle is \<open>None\<close> when it was read past the end of the \<open>yPos\<close> array
  (\<open>undefined\<close> in the source).\<close>

record Obstacle =
  o_typeConfig :: ObstacleType
  o_gapCoefficient :: real
  o_size :: int
  o_remove :: bool
  o_xPos :: real
  o_yPos :: "real option"
  o_width :: real
  o_collisionBoxes :: "CollisionBox list"
  o_gap :: int
  o_speedOffset :: real
  o_followingObstacleCreated :: bool

record Trex =
  trex_xPos :: real
  trex_yPos :: real
  trex_ducking :: bool
  trex_WIDTH :: real
  trex_HEIGHT :: real

text \<open>\<open>Trex.collisionBoxes\<close>.\<close>

definition Trex_collisionBoxes_DUCKING :: "CollisionBox list" where
  "Trex_collisionBoxes_DUCKING = [new_CollisionBox 1 18 55 25]"

definition Trex_collisionBoxes_RUNNING :: "CollisionBox list" where
  "Trex_collisionBoxes_RUNNING =
     [new_CollisionBox 22 0 17 16, new_CollisionBox 1 18 30 9, new_CollisionBox 10 35 14 8,
      new_CollisionBox 1 24 29 5, new_CollisionBox 5 30 21 4, new_CollisionBox 9 34 15 4]"

subsection \<open>checkForCollision\<close>

text \<open>The outer boxes, with the 1 pixel border taken off on every side.\<close>

definition tRexBox_of :: "Trex \<Rightarrow> CollisionBox" where
  "tRexBox_of tRex =
     new_CollisionBox (trex_xPos tRex + 1) (trex_yPos tRex + 1)
       (trex_WIDTH tRex - 2) (trex_HEIGHT tRex - 2)"

definition obstacleBox_of :: "Obstacle \<Rightarrow> real \<Rightarrow> CollisionBox" where
  "obstacleBox_of obstacle oy =
     new_CollisionBox (o_xPos obstacle + 1) (oy + 1)
       (t_width (o_typeConfig obstacle) * real_of_int (o_size obstacle) - 2)
       (t_height (o_typeConfig obstacle) - 2)"

definition tRexCollisionBoxes_of :: "Statics \<Rightarrow> Trex \<Rightarrow> CollisionBox list" where
  "tRexCollisionBoxes_of g tRex =
     (if isAltGameModeEnabled g then TREX_COLLISION_BOXES g
      else if trex_ducking tRex then Trex_collisionBoxes_DUCKING
      else Trex_collisionBoxes_RUNNING)"

text \<open>The inner loop, over the obstacle's boxes, for one box of the t-rex.\<close>

primrec obstacleLoop ::
  "CollisionBox \<Rightarrow> CollisionBox list \<Rightarrow> CollisionBox \<Rightarrow> CollisionBox
     \<Rightarrow> (CollisionBox \<times> CollisionBox) option" where
  "obstacleLoop tb [] tRexBox obstacleBox = None"
| "obstacleLoop tb (c # cs) tRexBox obstacleBox =
     (let adjTrexBox = createAdjustedCollisionBox tb tRexBox;
          adjObstacleBox = createAdjustedCollisionBox c obstacleBox;
          crashed = boxCompare adjTrexBox adjObstacleBox
      in if crashed then Some (adjTrexBox, adjObstacleBox)
         else obstacleLoop tb cs tRexBox obstacleBox)"

text \<open>The outer loop, over the boxes of the t-rex.\<close>

primrec tRexLoop ::
  "CollisionBox list \<Rightarrow> CollisionBox list \<Rightarrow> CollisionBox \<Rightarrow> CollisionBox
     \<Rightarrow> (CollisionBox \<times> CollisionBox) option" where
  "tRexLoop [] collisionBoxes tRexBox obstacleBox = None"
| "tRexLoop (tb # tbs) collisionBoxes tRexBox obstacleBox =
     (case obstacleLoop tb collisionBoxes tRexBox obstacleBox of
        Some pair \<Rightarrow> Some pair
      | None \<Rightarrow> tRexLoop tbs collisionBoxes tRexBox obstacleBox)"

text \<open>
  \<open>checkForCollision(obstacle, tRex)\<close> returns the pair of adjusted boxes that overlap,
  or \<open>undefined\<close> (\<open>None\<close>). With an undefined \<open>obstacle.yPos\<close> the obstacle box has
  \<open>NaN\<close> for its \<open>y\<close>, every comparison with it is false, and the outer check fails.
\<close>

definition checkForCollision :: "Statics \<Rightarrow> Obstacle \<Rightarrow> Trex \<Rightarrow> (CollisionBox \<times> CollisionBox) option" where
  "checkForCollision g obstacle tRex =
     (case o_yPos obstacle of
        None \<Rightarrow> None
      | Some oy \<Rightarrow>
          (let tRexBox = tRexBox_of tRex;
               obstacleBox = obstacleBox_of obstacle oy
           in if boxCompare tRexBox obstacleBox
              then tRexLoop (tRexCollisionBoxes_of g tRex) (o_collisionBoxes obstacle)
                     tRexBox obstacleBox
              else None))"

subsection \<open>Obstacle: constructor, init, getGap\<close>

text \<open>\<open>getGap(gapCoefficient, speed)\<close>; \<open>r\<close> is the value \<open>Math.random()\<close> returns inside
  \<open>getRandomNum\<close>.\<close>

definition Obstacle_minGap :: "Obstacle \<Rightarrow> real \<Rightarrow> real \<Rightarrow> int" where
  "Obstacle_minGap this gapCoefficient speed =
     Math_round (o_width this * speed + t_minGap (o_typeConfig this) * gapCoefficient)"

definition Obstacle_maxGap :: "Statics \<Rightarrow> int \<Rightarrow> int" where
  "Obstacle_maxGap g minGap = Math_round (real_of_int minGap * MAX_GAP_COEFFICIENT g)"

definition getGap :: "Statics \<Rightarrow> real \<Rightarrow> Obstacle \<Rightarrow> real \<Rightarrow> real \<Rightarrow> int" where
  "getGap g r this gapCoefficient speed =
     (let minGap = Obstacle_minGap this gapCoefficient speed;
          maxGap = Obstacle_maxGap g minGap
      in getRandomNum r minGap maxGap)"

text \<open>The collision box adjustment of \<open>init\<close> for \<open>size > 1\<close>:
  \<^verbatim>\<open>this.collisionBoxes[1].width = this.width - this.collisionBoxes[0].width - this.collisionBoxes[2].width;
  this.collisionBoxes[2].x = this.width - this.collisionBoxes[2].width;\<close>
  With fewer than three boxes a property of \<open>undefined\<close> is accessed: a TypeError.\<close>

definition adjustCollisionBoxes :: "real \<Rightarrow> CollisionBox list \<Rightarrow> js_error + CollisionBox list" where
  "adjustCollisionBoxes w boxes =
     (case boxes of
        b0 # b1 # b2 # rest \<Rightarrow>
          Inr (b0 # b1\<lparr>cb_width := w - cb_width b0 - cb_width b2\<rparr>
                  # b2\<lparr>cb_x := w - cb_width b2\<rparr> # rest)
      | _ \<Rightarrow> Inl TypeError)"

text \<open>
  \<open>init(speed)\<close>, without the drawing, block by block.
  First \<open>cloneCollisionBoxes()\<close>, the size (only allowed at the right speed; a missing
  \<open>multipleSpeed\<close> compares false) and the width.
\<close>

definition init_size :: "Obstacle \<Rightarrow> real \<Rightarrow> Obstacle" where
  "init_size this0 speed =
     (let tc = o_typeConfig this0;
          this1 = this0\<lparr>o_collisionBoxes := t_collisionBoxes tc\<rparr>;
          this2 = (if o_size this1 > 1 \<and>
                      (case t_multipleSpeed tc of None \<Rightarrow> False | Some m \<Rightarrow> m > speed)
                   then this1\<lparr>o_size := 1\<rparr> else this1)
      in this2\<lparr>o_width := t_width tc * real_of_int (o_size this2)\<rparr>)"

text \<open>The height: a row of the \<open>yPos\<close> array, drawn at random, or the fixed \<open>yPos\<close>.\<close>

definition init_yPos :: "Statics \<Rightarrow> random_source \<Rightarrow> nat \<Rightarrow> Obstacle \<Rightarrow> Obstacle \<times> nat" where
  "init_yPos g rnd i this =
     (case t_yPos (o_typeConfig this) of
        FixedY v \<Rightarrow> (this\<lparr>o_yPos := Some v\<rparr>, i)
      | VariableY yPos yPosMobile \<Rightarrow>
          (let yPosConfig = (if IS_MOBILE g then yPosMobile else yPos)
           in (this\<lparr>o_yPos := js_index yPosConfig
                         (getRandomNum (rnd i) 0 (int (length yPosConfig) - 1))\<rparr>,
               Suc i)))"

text \<open>The collision boxes of an obstacle of \<open>size > 1\<close>.\<close>

definition init_boxes :: "Obstacle \<Rightarrow> js_error + Obstacle" where
  "init_boxes this =
     (if o_size this > 1
      then (case adjustCollisionBoxes (o_width this) (o_collisionBoxes this) of
              Inl e \<Rightarrow> Inl e
            | Inr boxes \<Rightarrow> Inr (this\<lparr>o_collisionBoxes := boxes\<rparr>))
      else Inr this)"

text \<open>The speed offset, when the type has a truthy one:
  \<^verbatim>\<open>this.speedOffset = Math.random() > 0.5 ? this.typeConfig.speedOffset : -this.typeConfig.speedOffset;\<close>\<close>

definition init_speedOffset :: "random_source \<Rightarrow> nat \<Rightarrow> Obstacle \<Rightarrow> Obstacle \<times> nat" where
  "init_speedOffset rnd i this =
     (case t_speedOffset (o_typeConfig this) of
        None \<Rightarrow> (this, i)
      | Some so \<Rightarrow>
          if so = 0 then (this, i)
          else (this\<lparr>o_speedOffset := (if rnd i > 1 / 2 then so else - so)\<rparr>, Suc i))"

text \<open>The gap, doubled when the audio cues are on:
  \<^verbatim>\<open>this.gap = this.getGap(this.gapCoefficient, speed);
  if (Runner.audioCues) { this.gap *= 2; }\<close>\<close>

definition init_gap :: "Statics \<Rightarrow> random_source \<Rightarrow> nat \<Rightarrow> Obstacle \<Rightarrow> real \<Rightarrow> Obstacle \<times> nat" where
  "init_gap g rnd i this speed =
     (let this1 = this\<lparr>o_gap := getGap g (rnd i) this (o_gapCoefficient this) speed\<rparr>
      in (if audioCues g then this1\<lparr>o_gap := o_gap this1 * 2\<rparr> else this1, Suc i))"

text \<open>\<open>init(speed)\<close>: the blocks in the order of the source. The draws are, in order: the
  row of a variable \<open>yPos\<close>, the sign of the speed offset, the gap.\<close>

definition Obstacle_init :: "Statics \<Rightarrow> random_source \<Rightarrow> nat \<Rightarrow> Obstacle \<Rightarrow> real \<Rightarrow> js_error + Obstacle \<times> nat" where
  "Obstacle_init g rnd i this0 speed =
     (case init_yPos g rnd i (init_size this0 speed) of
        (this1, i1) \<Rightarrow>
          (case init_boxes this1 of
             Inl e \<Rightarrow> Inl e
           | Inr this2 \<Rightarrow>
               (case init_speedOffset rnd i1 this2 of
                  (this3, i3) \<Rightarrow> Inr (init_gap g rnd i3 this3 speed))))"

text \<open>The constructor. \<open>opt_xOffset || 0\<close> is \<open>opt_xOffset\<close> for a number. The first draw
  is the size.\<close>

definition new_Obstacle ::
  "Statics \<Rightarrow> random_source \<Rightarrow> nat \<Rightarrow> ObstacleType \<Rightarrow> real \<Rightarrow> real \<Rightarrow> real \<Rightarrow> real
     \<Rightarrow> js_error + Obstacle \<times> nat" where
  "new_Obstacle g rnd i type dimensions_WIDTH gapCoefficient speed opt_xOffset =
     Obstacle_init g rnd (Suc i)
       \<lparr>o_typeConfig = type,
        o_gapCoefficient = (if slowDown g then gapCoefficient * 2 else gapCoefficient),
        o_size = getRandomNum (rnd i) 1 (MAX_OBSTACLE_LENGTH g),
        o_remove = False,
        o_xPos = dimensions_WIDTH + opt_xOffset,
        o_yPos = Some 0,
        o_width = 0,
        o_collisionBoxes = [],
        o_gap = 0,
        o_speedOffset = 0,
        o_followingObstacleCreated = False\<rparr>
       speed"

subsection \<open>Horizon: the obstacle spawner\<close>

record Horizon =
  h_obstacles :: "Obstacle list"
  h_obstacleHistory :: "string list"
  h_gapCoefficient :: real
  h_dimensions_WIDTH :: real
  h_altGameModeActive :: bool

text \<open>\<open>Runner.config.MAX_OBSTACLE_DUPLICATION\<close>.\<close>

definition MAX_OBSTACLE_DUPLICATION :: int where
  "MAX_OBSTACLE_DUPLICATION = 2"

definition duplicateObstacleCheck :: "Horizon \<Rightarrow> string \<Rightarrow> bool" where
  "duplicateObstacleCheck this nextObstacleType =
     (let duplicateCount =
            fold (\<lambda>t duplicateCount. if t = nextObstacleType then duplicateCount + 1 else 0)
              (h_obstacleHistory this) (0::int)
      in duplicateCount \<ge> MAX_OBSTACLE_DUPLICATION)"

text \<open>\<open>obstacleCount\<close> of \<open>addNewObstacle\<close>; \<open>None\<close> when \<open>Obstacle.types\<close> is empty
  (the source then reads \<open>.type\<close> of \<open>undefined\<close>).\<close>

definition obstacleCount_of :: "Statics \<Rightarrow> Horizon \<Rightarrow> int option" where
  "obstacleCount_of g this =
     (case js_index (Obstacle_types g) (int (length (Obstacle_types g)) - 1) of
        None \<Rightarrow> None
      | Some lastType \<Rightarrow>
          Some (if t_type lastType \<noteq> ''COLLECTABLE'' \<or>
                   (isAltGameModeEnabled g \<and> \<not> h_altGameModeActive this \<or>
                    h_altGameModeActive this)
                then int (length (Obstacle_types g)) - 1
                else int (length (Obstacle_types g)) - 2))"

text \<open>The push of the new obstacle and the update of the history (the else branch).\<close>

definition pushObstacle :: "Horizon \<Rightarrow> Obstacle \<Rightarrow> Horizon" where
  "pushObstacle this ob =
     (let obstacleHistory = t_type (o_typeConfig ob) # h_obstacleHistory this
      in this\<lparr>h_obstacles := h_obstacles this @ [ob],
              h_obstacleHistory :=
                (if length obstacleHistory > 1
                 then take (nat MAX_OBSTACLE_DUPLICATION) obstacleHistory
                 else obstacleHistory)\<rparr>)"

text \<open>
  \<open>addNewObstacle(currentSpeed)\<close>. A rejected candidate leads to a nested call
  \<^verbatim>\<open>this.addNewObstacle(currentSpeed)\<close> (not a tail call), so every retry takes one more
  frame of the call stack, and the source sets no bound of its own. \<open>depth\<close> is the
  number of nested activations of \<open>addNewObstacle\<close>, each with room for the calls it
  makes, that the call stack still holds: a parameter, the limit belongs to the engine.
  An activation for which there is no room throws a RangeError; nothing has been
  written to the horizon by then, the only writes being the last statements of the
  accepting branch. The result is \<open>Inl e\<close> when the call throws and \<open>Inr (horizon, i)\<close>
  when it returns.
\<close>

fun addNewObstacle ::
  "Statics \<Rightarrow> random_source \<Rightarrow> nat \<Rightarrow> Horizon \<Rightarrow> real \<Rightarrow> nat \<Rightarrow> js_error + Horizon \<times> nat" where
  "addNewObstacle g rnd i this currentSpeed 0 = Inl RangeError"
| "addNewObstacle g rnd i this currentSpeed (Suc depth) =
     (case obstacleCount_of g this of
        None \<Rightarrow> Inl TypeError
      | Some obstacleCount \<Rightarrow>
          (let obstacleTypeIndex =
                 (if obstacleCount > 0 then getRandomNum (rnd i) 0 obstacleCount else 0);
               i1 = (if obstacleCount > 0 then Suc i else i)
           in case js_index (Obstacle_types g) obstacleTypeIndex of
                None \<Rightarrow> Inl TypeError
              | Some obstacleType \<Rightarrow>
                  if (obstacleCount > 0 \<and> duplicateObstacleCheck this (t_type obstacleType)) \<or>
                     currentSpeed < t_minSpeed obstacleType
                  then addNewObstacle g rnd i1 this currentSpeed depth
                  else (case new_Obstacle g rnd i1 obstacleType (h_dimensions_WIDTH this)
                               (h_gapCoefficient this) currentSpeed (t_width obstacleType) of
                          Inl e \<Rightarrow> Inl e
                        | Inr (ob, i2) \<Rightarrow> Inr (pushObstacle this ob, i2))))"

subsection \<open>Runner: the speed ramp of the game loop\<close>

text \<open>\<open>Runner.normalConfig\<close> and \<open>Runner.slowConfig\<close>, the fields the loop reads:
  \<^verbatim>\<open>ACCELERATION: 0.001, MAX_SPEED: 13, SPEED: 6\<close> and
  \<^verbatim>\<open>ACCELERATION: 0.0005, MAX_SPEED: 9, SPEED: 4.2\<close>.\<close>

record RunnerConfig =
  ACCELERATION :: real
  MAX_SPEED :: real
  SPEED :: real

definition normalConfig :: RunnerConfig where
  "normalConfig = \<lparr>ACCELERATION = double_of (1 / 1000), MAX_SPEED = 13, SPEED = 6\<rparr>"

definition slowConfig :: RunnerConfig where
  "slowConfig =
     \<lparr>ACCELERATION = double_of (5 / 10000), MAX_SPEED = 9, SPEED = double_of (42 / 10)\<rparr>"

definition FPS :: real where
  "FPS = 60"

record Runner =
  r_config :: RunnerConfig
  r_msPerFrame :: real
  r_currentSpeed :: real
  r_distanceRan :: real
  r_highestScore :: real
  r_playing :: bool
  r_paused :: bool
  r_crashed :: bool

text \<open>The runner as the constructor leaves it (\<^verbatim>\<open>this.msPerFrame = 1000 / FPS\<close>,
  \<^verbatim>\<open>this.currentSpeed = this.config.SPEED\<close>), once play has started.\<close>

definition new_Runner :: "RunnerConfig \<Rightarrow> Runner" where
  "new_Runner config =
     \<lparr>r_config = config, r_msPerFrame = js_div 1000 FPS, r_currentSpeed = SPEED config,
      r_distanceRan = 0, r_highestScore = 0, r_playing = True, r_paused = False,
      r_crashed = False\<rparr>"

text \<open>\<open>gameOver()\<close>: \<open>stop()\<close>, \<open>crashed = true\<close>, and the high score.\<close>

definition Runner_gameOver :: "Runner \<Rightarrow> Runner" where
  "Runner_gameOver this =
     (let this1 = this\<lparr>r_playing := False, r_paused := True, r_crashed := True\<rparr>
      in if r_distanceRan this1 > r_highestScore this1
         then this1\<lparr>r_highestScore := of_int \<lceil>r_distanceRan this1\<rceil>\<rparr>
         else this1)"

text \<open>
  The part of \<open>update()\<close> that follows the collision check. \<open>deltaTime\<close> is the time of
  the frame as the first part of \<open>update()\<close> leaves it, \<open>collision\<close> the result of the
  collision check (after a collectable has been taken off):
  \<^verbatim>\<open>
  if (!collision) {
    this.distanceRan += this.currentSpeed * deltaTime / this.msPerFrame;
    if (this.currentSpeed < this.config.MAX_SPEED) {
      this.currentSpeed += this.config.ACCELERATION;
    }
  } else {
    this.gameOver();
  }\<close>
  Nothing of it runs unless \<open>this.playing\<close>. Every operation rounds its result.
\<close>

definition Runner_update :: "Runner \<Rightarrow> real \<Rightarrow> bool \<Rightarrow> Runner" where
  "Runner_update this deltaTime collision =
     (if r_playing this then
        (if \<not> collision then
           (let this1 = this\<lparr>r_distanceRan :=
                         js_add (r_distanceRan this)
                           (js_div (js_mul (r_currentSpeed this) deltaTime) (r_msPerFrame this))\<rparr>
            in if r_currentSpeed this1 < MAX_SPEED (r_config this1)
               then this1\<lparr>r_currentSpeed :=
                            js_add (r_currentSpeed this1) (ACCELERATION (r_config this1))\<rparr>
               else this1)
         else Runner_gameOver this)
      else this)"

text \<open>A run of frames without a collision, one \<open>deltaTime\<close> for each.\<close>

definition run_frames :: "Runner \<Rightarrow> real list \<Rightarrow> Runner" where
  "run_frames this deltaTimes = foldl (\<lambda>r deltaTime. Runner_update r deltaTime False) this deltaTimes"

section \<open>LoadTimeData\<close>

datatype js_value = JUndefined | JNull | JBoolean bool | JNumber real | JString string

text \<open>The backing object is a dictionary; the field \<^verbatim>\<open>data_\<close> (here \<open>ltd_data\<close>) is \<open>null\<close>
  (\<open>None\<close>) until it is set.
  An object is truthy, \<open>null\<close> is falsy.\<close>

record LoadTimeData =
  ltd_data :: "(string \<rightharpoonup> js_value) option"

definition new_LoadTimeData :: LoadTimeData where
  "new_LoadTimeData = \<lparr>ltd_data = None\<rparr>"

text \<open>\<open>assert(value, message)\<close> throws \<open>Error('Assertion failed: ' + message)\<close> unless
  \<open>value\<close> is truthy.\<close>

definition js_assert :: "bool \<Rightarrow> string \<Rightarrow> js_error option" where
  "js_assert v message = (if v then None else Some (AssertionFailed message))"

text \<open>The setter \<open>set data(value)\<close>: the exception it throws, if any, and the object after.\<close>

definition set_data :: "LoadTimeData \<Rightarrow> (string \<rightharpoonup> js_value) \<Rightarrow> js_error option \<times> LoadTimeData" where
  "set_data this v =
     (case js_assert (ltd_data this = None) ''Re-setting data.'' of
        Some e \<Rightarrow> (Some e, this)
      | None \<Rightarrow> (None, this\<lparr>ltd_data := Some v\<rparr>))"

text \<open>A property read \<open>obj[id]\<close>: \<open>undefined\<close> for a key that is not there.\<close>

definition js_get :: "(string \<rightharpoonup> js_value) \<Rightarrow> string \<Rightarrow> js_value" where
  "js_get obj ident = (case obj ident of None \<Rightarrow> JUndefined | Some v \<Rightarrow> v)"

definition getValue :: "LoadTimeData \<Rightarrow> string \<Rightarrow> js_error + js_value" where
  "getValue this ident =
     (case ltd_data this of
        None \<Rightarrow> Inl (AssertionFailed ''No data. Did you remember to include strings.js?'')
      | Some d \<Rightarrow>
          (let v = js_get d ident
           in case js_assert (v \<noteq> JUndefined) (''Could not find value for '' @ ident) of
                Some e \<Rightarrow> Inl e
              | None \<Rightarrow> Inr v))"

section \<open>Snake\<close>

text \<open>
  A cell \<open>{x, y}\<close> is a pair. \<open>tileCount = canvas.width / gridSize\<close> is a parameter \<open>T\<close>
  of the model (the canvas belongs to the page), taken to be a whole number.
\<close>

type_synonym cell = "int \<times> int"

record SnakeState =
  snake :: "cell list"
  food :: cell
  obstacles :: "cell list"
  dx :: int
  dy :: int
  score :: int
  gameSpeed :: real
  isFastMode :: bool
  isSlowMode :: bool
  isWrapAround :: bool

text \<open>\<^verbatim>\<open>{ x: Math.floor(Math.random() * tileCount), y: Math.floor(Math.random() * tileCount) }\<close>\<close>

definition randomCell :: "int \<Rightarrow> random_source \<Rightarrow> nat \<Rightarrow> cell" where
  "randomCell T rnd i = (\<lfloor>rnd i * real_of_int T\<rfloor>, \<lfloor>rnd (Suc i) * real_of_int T\<rfloor>)"

text \<open>The do-while loop of \<open>generateObstacles\<close>: draw a cell until it is on no snake
  segment, not on the food and on no obstacle placed so far.\<close>

partial_function (option) pickObstacle ::
  "int \<Rightarrow> random_source \<Rightarrow> nat \<Rightarrow> SnakeState \<Rightarrow> (cell \<times> nat) option" where
  "pickObstacle T rnd i st =
     (let obstacle = randomCell T rnd i
      in if obstacle \<in> set (snake st) \<or> obstacle = food st \<or> obstacle \<in> set (obstacles st)
         then pickObstacle T rnd (i + 2) st
         else Some (obstacle, i + 2))"

declare pickObstacle.simps [code]

text \<open>The for loop of \<open>generateObstacles\<close>, with the number of rounds left.\<close>

fun obstacleRounds :: "nat \<Rightarrow> int \<Rightarrow> random_source \<Rightarrow> nat \<Rightarrow> SnakeState \<Rightarrow> (SnakeState \<times> nat) option" where
  "obstacleRounds 0 T rnd i st = Some (st, i)"
| "obstacleRounds (Suc n) T rnd i st =
     (case pickObstacle T rnd i st of
        None \<Rightarrow> None
      | Some (obstacle, j) \<Rightarrow> obstacleRounds n T rnd j (st\<lparr>obstacles := obstacles st @ [obstacle]\<rparr>))"

definition generateObstacles :: "int \<Rightarrow> random_source \<Rightarrow> nat \<Rightarrow> SnakeState \<Rightarrow> (SnakeState \<times> nat) option" where
  "generateObstacles T rnd i st = obstacleRounds 5 T rnd i (st\<lparr>obstacles := []\<rparr>)"

text \<open>\<open>updateGameSpeed\<close>; the interval timer it restarts is not part of the state.\<close>

definition updateGameSpeed :: "SnakeState \<Rightarrow> SnakeState" where
  "updateGameSpeed st =
     (if isFastMode st then st\<lparr>gameSpeed := 50\<rparr>
      else if isSlowMode st then st\<lparr>gameSpeed := 200\<rparr>
      else st\<lparr>gameSpeed := 100\<rparr>)"

definition toggleFastMode :: "SnakeState \<Rightarrow> SnakeState" where
  "toggleFastMode st = updateGameSpeed (st\<lparr>isFastMode := \<not> isFastMode st, isSlowMode := False\<rparr>)"

definition toggleSlowMode :: "SnakeState \<Rightarrow> SnakeState" where
  "toggleSlowMode st = updateGameSpeed (st\<lparr>isSlowMode := \<not> isSlowMode st, isFastMode := False\<rparr>)"

definition toggleWrapAround :: "SnakeState \<Rightarrow> SnakeState" where
  "toggleWrapAround st = st\<lparr>isWrapAround := True\<rparr>"

definition disableWrapAround :: "SnakeState \<Rightarrow> SnakeState" where
  "disableWrapAround st = st\<lparr>isWrapAround := False\<rparr>"

text \<open>The remainder \<open>a % b\<close> of JavaScript takes the sign of \<open>a\<close>; it is \<open>NaN\<close> (\<open>None\<close>)
  for \<open>b = 0\<close>.\<close>

definition js_rem :: "int \<Rightarrow> int \<Rightarrow> int option" where
  "js_rem a b = (if b = 0 then None else Some (sgn a * (\<bar>a\<bar> mod \<bar>b\<bar>)))"

text \<open>\<open>wrapAround(head)\<close> writes both coordinates of the object it is given and returns
  that object.\<close>

definition wrapAround :: "int \<Rightarrow> cell \<Rightarrow> int option \<times> int option" where
  "wrapAround T head = (js_rem (fst head + T) T, js_rem (snd head + T) T)"

text \<open>\<open>changeDirection(event)\<close>, on the key code of the event.\<close>

definition changeDirection :: "int \<Rightarrow> SnakeState \<Rightarrow> SnakeState" where
  "changeDirection keyPressed st =
     (let LEFT_KEY = 37; RIGHT_KEY = 39; UP_KEY = 38; DOWN_KEY = 40;
          goingUp = (dy st = - 1);
          goingDown = (dy st = 1);
          goingRight = (dx st = 1);
          goingLeft = (dx st = - 1);
          st1 = (if keyPressed = LEFT_KEY \<and> \<not> goingRight then st\<lparr>dx := - 1, dy := 0\<rparr> else st);
          st2 = (if keyPressed = UP_KEY \<and> \<not> goingDown then st1\<lparr>dx := 0, dy := - 1\<rparr> else st1);
          st3 = (if keyPressed = RIGHT_KEY \<and> \<not> goingLeft then st2\<lparr>dx := 1, dy := 0\<rparr> else st2);
          st4 = (if keyPressed = DOWN_KEY \<and> \<not> goingUp then st3\<lparr>dx := 0, dy := 1\<rparr> else st3);
          st5 = (if keyPressed = 84 then toggleFastMode st4 else st4);
          st6 = (if keyPressed = 83 then toggleSlowMode st5 else st5);
          st7 = (if keyPressed = 87 then toggleWrapAround st6 else st6);
          st8 = (if keyPressed = 81 then disableWrapAround st7 else st7)
      in st8)"

text \<open>\<open>gameOver()\<close>: the reset (the alert and the score display are not part of the
  state). The food is drawn once; the obstacles are generated after it. \<open>None\<close> when
  the obstacle loop never ends.\<close>

definition gameOver :: "int \<Rightarrow> random_source \<Rightarrow> nat \<Rightarrow> SnakeState \<Rightarrow> (SnakeState \<times> nat) option" where
  "gameOver T rnd i st =
     (let st1 = st\<lparr>snake := [(10, 10)], dx := 0, dy := 0, score := 0, gameSpeed := 100,
                   isFastMode := False, isSlowMode := False, isWrapAround := False,
                   food := randomCell T rnd i\<rparr>
      in case generateObstacles T rnd (i + 2) st1 of
           None \<Rightarrow> None
         | Some (st2, j) \<Rightarrow> Some (updateGameSpeed st2, j))"

text \<open>The while loop that follows the first draw of the new food in \<open>drawGame\<close>.\<close>

partial_function (option) placeFood ::
  "int \<Rightarrow> random_source \<Rightarrow> nat \<Rightarrow> SnakeState \<Rightarrow> (SnakeState \<times> nat) option" where
  "placeFood T rnd i st =
     (if food st \<in> set (snake st) \<or> food st \<in> set (obstacles st)
      then placeFood T rnd (i + 2) (st\<lparr>food := randomCell T rnd i\<rparr>)
      else Some (st, i))"

declare placeFood.simps [code]

text \<open>
  \<open>drawGame()\<close>, one tick, without the drawing. \<open>head\<close> is declared \<open>const\<close>, so in the
  wraparound branch \<^verbatim>\<open>head = wrapAround(head);\<close> evaluates the call and then throws a
  TypeError (assignment to a constant); the tick ends there, with the game state as it
  was. The result is \<open>None\<close> when a loop never ends, \<open>Some (Inl e)\<close> when the tick throws.
\<close>

definition drawGame :: "int \<Rightarrow> random_source \<Rightarrow> nat \<Rightarrow> SnakeState \<Rightarrow> (js_error + SnakeState \<times> nat) option" where
  "drawGame T rnd i st =
     (case snake st of
        [] \<Rightarrow> Some (Inl TypeError)
      | s0 # _ \<Rightarrow>
          (let head = (fst s0 + dx st, snd s0 + dy st)
           in if fst head < 0 \<or> fst head \<ge> T \<or> snd head < 0 \<or> snd head \<ge> T
              then (if isWrapAround st
                    then (let wrapped = wrapAround T head in Some (Inl TypeError))
                    else map_option Inr (gameOver T rnd i st))
              else if head \<in> set (obstacles st)
              then map_option Inr (gameOver T rnd i st)
              else
                (let st1 = st\<lparr>snake := head # snake st\<rparr>
                 in case (if head = food st
                          then map_option (\<lambda>(st3, j). (updateGameSpeed (st3\<lparr>gameSpeed := gameSpeed st3 * (95 / 100)\<rparr>), j))
                                 (placeFood T rnd (i + 2)
                                    (st1\<lparr>score := score st1 + 10, food := randomCell T rnd i\<rparr>))
                          else Some (st1\<lparr>snake := butlast (snake st1)\<rparr>, i)) of
                      None \<Rightarrow> None
                    | Some (st4, j) \<Rightarrow>
                        if head \<in> set (tl (snake st4))
                        then map_option Inr (gameOver T rnd j st4)
                        else Some (Inr (st4, j)))))"

section \<open>The tables of the source and sample inputs\<close>

text \<open>\<open>spriteDefinitionByType.original.OBSTACLES\<close>.\<close>

definition CACTUS_SMALL :: ObstacleType where
  "CACTUS_SMALL =
     \<lparr>t_type = ''CACTUS_SMALL'', t_width = 17, t_height = 35, t_yPos = FixedY 105,
      t_multipleSpeed = Some 4, t_minGap = 120, t_minSpeed = 0,
      t_collisionBoxes =
        [new_CollisionBox 0 7 5 27, new_CollisionBox 4 0 6 34, new_CollisionBox 10 4 7 14],
      t_speedOffset = None\<rparr>"

definition CACTUS_LARGE :: ObstacleType where
  "CACTUS_LARGE =
     \<lparr>t_type = ''CACTUS_LARGE'', t_width = 25, t_height = 50, t_yPos = FixedY 90,
      t_multipleSpeed = Some 7, t_minGap = 120, t_minSpeed = 0,
      t_collisionBoxes =
        [new_CollisionBox 0 12 7 38, new_CollisionBox 8 0 7 49, new_CollisionBox 13 10 10 38],
      t_speedOffset = None\<rparr>"

definition PTERODACTYL :: ObstacleType where
  "PTERODACTYL =
     \<lparr>t_type = ''PTERODACTYL'', t_width = 46, t_height = 40,
      t_yPos = VariableY [100, 75, 50] [100, 50],
      t_multipleSpeed = Some 999, t_minGap = 150, t_minSpeed = 85 / 10,
      t_collisionBoxes =
        [new_CollisionBox 15 15 16 5, new_CollisionBox 18 21 24 6, new_CollisionBox 2 14 4 3,
         new_CollisionBox 6 10 4 7, new_CollisionBox 10 8 6 9],
      t_speedOffset = Some (8 / 10)\<rparr>"

definition COLLECTABLE :: ObstacleType where
  "COLLECTABLE =
     \<lparr>t_type = ''COLLECTABLE'', t_width = 31, t_height = 24, t_yPos = FixedY 104,
      t_multipleSpeed = Some 1000, t_minGap = 9999, t_minSpeed = 0,
      t_collisionBoxes = [new_CollisionBox 0 0 32 25],
      t_speedOffset = None\<rparr>"

definition original_OBSTACLES :: "ObstacleType list" where
  "original_OBSTACLES = [CACTUS_SMALL, CACTUS_LARGE, PTERODACTYL, COLLECTABLE]"

text \<open>The statics of the original game on a desktop: no slow mode, no audio cues, no
  alternative game.\<close>

definition originalStatics :: Statics where
  "originalStatics =
     \<lparr>slowDown = False, audioCues = False, isAltGameModeEnabled = False, IS_MOBILE = False,
      MAX_OBSTACLE_LENGTH = 3, MAX_GAP_COEFFICIENT = 3 / 2,
      Obstacle_types = original_OBSTACLES,
      TREX_COLLISION_BOXES = Trex_collisionBoxes_RUNNING\<rparr>"

text \<open>The horizon as its constructor leaves it, for the default width and the gap
  coefficient of \<open>Runner.normalConfig\<close>.\<close>

definition new_Horizon :: Horizon where
  "new_Horizon =
     \<lparr>h_obstacles = [], h_obstacleHistory = [], h_gapCoefficient = 6 / 10,
      h_dimensions_WIDTH = 600, h_altGameModeActive = False\<rparr>"

text \<open>A running t-rex on the ground and a small cactus that has reached it.\<close>

definition sample_tRex :: Trex where
  "sample_tRex =
     \<lparr>trex_xPos = 50, trex_yPos = 93, trex_ducking = False, trex_WIDTH = 44, trex_HEIGHT = 47\<rparr>"

definition sample_cactus :: Obstacle where
  "sample_cactus =
     \<lparr>o_typeConfig = CACTUS_SMALL, o_gapCoefficient = 6 / 10, o_size = 1, o_remove = False,
      o_xPos = 60, o_yPos = Some 105, o_width = 17,
      o_collisionBoxes = t_collisionBoxes CACTUS_SMALL, o_gap = 200, o_speedOffset = 0,
      o_followingObstacleCreated = False\<rparr>"

text \<open>A dictionary of localized strings.\<close>

definition sample_strings :: "string \<rightharpoonup> js_value" where
  "sample_strings = [''dinoGameA11yJump'' \<mapsto> JString ''Jump!'']"

text \<open>A snake of two segments that moves to the right.\<close>

definition sample_snake :: SnakeState where
  "sample_snake =
     \<lparr>snake = [(10, 10), (9, 10)], food = (3, 4), obstacles = [(0, 0)], dx = 1, dy = 0,
      score = 10, gameSpeed = 100, isFastMode = False, isSlowMode = False,
      isWrapAround = False\<rparr>"

text \<open>A snake at the left wall that moves to the left, with wraparound on.\<close>

definition wall_snake :: SnakeState where
  "wall_snake =
     \<lparr>snake = [(0, 10), (1, 10)], food = (3, 4), obstacles = [(5, 5)], dx = - 1, dy = 0,
      score = 10, gameSpeed = 100, isFastMode = False, isSlowMode = False,
      isWrapAround = True\<rparr>"

text \<open>Draws that put the food of the reset on the cell \<open>(10, 10)\<close> of a 20 by 20 grid,
  and the five obstacles on \<open>(1, 1)\<close>, ..., \<open>(5, 5)\<close>.\<close>

definition reset_draws :: random_source where
  "reset_draws i = (if i < 2 then 1 / 2 else real (i mod 40) / 40)"

definition after_reset :: SnakeState where
  "after_reset =
     \<lparr>snake = [(10, 10)], food = (10, 10),
      obstacles = [(1, 1), (2, 2), (3, 3), (4, 4), (5, 5)], dx = 0, dy = 0,
      score = 0, gameSpeed = 100, isFastMode = False, isSlowMode = False,
      isWrapAround = False\<rparr>"




text \<open>A straight snake of three segments that moves to the right; a snake that turns
  left into the cell of its own tail.\<close>

definition straight_snake :: SnakeState where
  "straight_snake =
     \<lparr>snake = [(10, 10), (9, 10), (8, 10)], food = (3, 4), obstacles = [(0, 0)], dx = 1, dy = 0,
      score = 20, gameSpeed = 100, isFastMode = False, isSlowMode = False,
      isWrapAround = False\<rparr>"


section \<open>Vocabulary of the statements about Snake\<close>

text \<open>The head position a tick computes, \<open>snake[0] + (dx, dy)\<close>, and the bounds test of
  \<open>drawGame\<close>.\<close>

definition nextHead :: "SnakeState \<Rightarrow> cell" where
  "nextHead st = (fst (hd (snake st)) + dx st, snd (hd (snake st)) + dy st)"

definition outOfGrid :: "int \<Rightarrow> cell \<Rightarrow> bool" where
  "outOfGrid T c = (fst c < 0 \<or> fst c \<ge> T \<or> snd c < 0 \<or> snd c \<ge> T)"


text \<open>Draws for one small cactus at speed 6.05: the size draw gives 1, the gap draw is
  0.99. The obstacle that \<open>new Obstacle\<close> then builds.\<close>

definition cactus_draws :: random_source where
  "cactus_draws i = (if i = 0 then 0 else 99 / 100)"

definition spawned_cactus :: Obstacle where
  "spawned_cactus =
     \<lparr>o_typeConfig = CACTUS_SMALL, o_gapCoefficient = 6 / 10, o_size = 1, o_remove = False,
      o_xPos = 617, o_yPos = Some 105, o_width = 17,
      o_collisionBoxes = t_collisionBoxes CACTUS_SMALL, o_gap = 263, o_speedOffset = 0,
      o_followingObstacleCreated = False\<rparr>"

section \<open>Vocabulary of the statements about the spawner\<close>

text \<open>The test of \<open>addNewObstacle\<close> that sends a candidate type back for another attempt.\<close>

definition rejected :: "Horizon \<Rightarrow> int \<Rightarrow> real \<Rightarrow> ObstacleType \<Rightarrow> bool" where
  "rejected this obstacleCount currentSpeed obstacleType =
     ((obstacleCount > 0 \<and> duplicateObstacleCheck this (t_type obstacleType)) \<or>
      currentSpeed < t_minSpeed obstacleType)"

text \<open>The candidate type of the attempt that starts at position \<open>k\<close> of the random
  sequence (with \<open>obstacleCount \<le> 0\<close> no number is drawn and the candidate is the first
  type).\<close>

definition candidate :: "Statics \<Rightarrow> random_source \<Rightarrow> int \<Rightarrow> nat \<Rightarrow> ObstacleType option" where
  "candidate g rnd obstacleCount k =
     js_index (Obstacle_types g)
       (if obstacleCount > 0 then getRandomNum (rnd k) 0 obstacleCount else 0)"

text \<open>Where a multiple size is possible at the speed, the type has the three collision
  boxes that \<open>init\<close> adjusts.\<close>

definition boxes_fit :: "Statics \<Rightarrow> real \<Rightarrow> bool" where
  "boxes_fit g speed =
     (\<forall>t \<in> set (Obstacle_types g).
        3 \<le> length (t_collisionBoxes t) \<or> (\<exists>m. t_multipleSpeed t = Some m \<and> m > speed))"

text \<open>A run of calls of the spawner, each with the statics, the value of
  \<open>altGameModeActive\<close> and the speed of its frame, all made with the same room \<open>depth\<close>
  on the call stack; the result lists the types of the obstacles added, in order.
  \<open>None\<close> when a call throws.\<close>

fun spawnSeq ::
  "nat \<Rightarrow> random_source \<Rightarrow> nat \<Rightarrow> Horizon \<Rightarrow> (Statics \<times> bool \<times> real) list
     \<Rightarrow> (string list \<times> Horizon \<times> nat) option" where
  "spawnSeq depth rnd i this [] = Some ([], this, i)"
| "spawnSeq depth rnd i this ((g, alt, currentSpeed) # calls) =
     (case addNewObstacle g rnd i (this\<lparr>h_altGameModeActive := alt\<rparr>) currentSpeed depth of
        Inr (this1, i1) \<Rightarrow>
          (case spawnSeq depth rnd i1 this1 calls of
             Some (types, this2, i2) \<Rightarrow>
               Some (t_type (o_typeConfig (last (h_obstacles this1))) # types, this2, i2)
           | None \<Rightarrow> None)
      | Inl e \<Rightarrow> None)"

text \<open>No element occurs three times in a row.\<close>

fun no_triple :: "'a list \<Rightarrow> bool" where
  "no_triple (a # b # c # xs) = (\<not> (a = b \<and> b = c) \<and> no_triple (b # c # xs))"
| "no_triple xs = True"



text \<open>Draws for three spawns at speed 6: a small cactus, a small cactus, then a small
  cactus again (rejected as a duplicate) and a large cactus in its place.\<close>

definition three_draws :: random_source where
  "three_draws i = (if i = 7 then 1 / 2 else 0)"

section \<open>Vocabulary of the statements about the speed ramp\<close>

text \<open>
  The speed of \<open>Runner.normalConfig\<close> after \<open>n\<close> frames without a collision, in closed
  form. Up to 8 the numbers lie \<open>2\<^sup>-\<^sup>5\<^sup>0\<close> apart and one step adds
  \<open>1125899906843 / 2\<^sup>5\<^sup>0\<close>; from 8 on they lie \<open>2\<^sup>-\<^sup>4\<^sup>9\<close> apart and one step adds
  \<open>562949953421 / 2\<^sup>4\<^sup>9\<close>; frame 2000 is the first to reach 8
  (\<open>4503599627370872 / 2\<^sup>4\<^sup>9\<close>), frame 7001 the first to reach 13 and the last to add.
\<close>

definition normal_ramp :: "nat \<Rightarrow> real" where
  "normal_ramp n =
     (if n \<le> 1999 then 6 + real n * (1125899906843 / 2 ^ 50)
      else if n \<le> 7001
      then 4503599627370872 / 2 ^ 49 + real (n - 2000) * (562949953421 / 2 ^ 49)
      else 7318912344429293 / 2 ^ 49)"

section \<open>Collision detection: the two-step check\<close>

lemma obstacleLoop_Some_iff:
  "obstacleLoop tb cs tRexBox obstacleBox \<noteq> None \<longleftrightarrow>
     (\<exists>c \<in> set cs. boxCompare (createAdjustedCollisionBox tb tRexBox)
                                 (createAdjustedCollisionBox c obstacleBox))"
  by (induction cs) (auto simp: Let_def)

lemma tRexLoop_Some_iff:
  "tRexLoop tbs cs tRexBox obstacleBox \<noteq> None \<longleftrightarrow>
     (\<exists>tb \<in> set tbs. \<exists>c \<in> set cs.
         boxCompare (createAdjustedCollisionBox tb tRexBox)
                    (createAdjustedCollisionBox c obstacleBox))"
proof (induction tbs)
  case Nil
  then show ?case by simp
next
  case (Cons tb tbs)
  show ?case
  proof (cases "obstacleLoop tb cs tRexBox obstacleBox")
    case None
    with obstacleLoop_Some_iff [of tb cs tRexBox obstacleBox] Cons show ?thesis by auto
  next
    case (Some p)
    with obstacleLoop_Some_iff [of tb cs tRexBox obstacleBox] show ?thesis by auto
  qed
qed

text \<open>
  Claim C1. \<open>checkForCollision\<close> reports a collision (returns a pair of boxes) if and only
  if the outer box of the t-rex and the outer box of the obstacle, each inset by 1 on
  every side, overlap under the axis-aligned rectangle test, and in addition some
  collision box of the t-rex and some collision box of the obstacle, each translated by
  the origin of its owner's inset outer box, overlap under the same test. When the
  outer boxes do not overlap nothing is reported, whatever the inner boxes are.
\<close>

theorem C1_checkForCollision:
  "(checkForCollision g obstacle tRex \<noteq> None \<longleftrightarrow>
      (\<exists>oy. o_yPos obstacle = Some oy \<and>
         boxCompare (tRexBox_of tRex) (obstacleBox_of obstacle oy) \<and>
         (\<exists>tb \<in> set (tRexCollisionBoxes_of g tRex). \<exists>c \<in> set (o_collisionBoxes obstacle).
             boxCompare (createAdjustedCollisionBox tb (tRexBox_of tRex))
                        (createAdjustedCollisionBox c (obstacleBox_of obstacle oy))))) \<and>
   tRexBox_of tRex =
     \<lparr>cb_x = trex_xPos tRex + 1, cb_y = trex_yPos tRex + 1,
      cb_width = trex_WIDTH tRex - 2, cb_height = trex_HEIGHT tRex - 2\<rparr> \<and>
   obstacleBox_of obstacle y0 =
     \<lparr>cb_x = o_xPos obstacle + 1, cb_y = y0 + 1,
      cb_width = t_width (o_typeConfig obstacle) * real_of_int (o_size obstacle) - 2,
      cb_height = t_height (o_typeConfig obstacle) - 2\<rparr> \<and>
   createAdjustedCollisionBox b adj =
     \<lparr>cb_x = cb_x b + cb_x adj, cb_y = cb_y b + cb_y adj,
      cb_width = cb_width b, cb_height = cb_height b\<rparr> \<and>
   (boxCompare a b \<longleftrightarrow>
      cb_x a < cb_x b + cb_width b \<and> cb_x a + cb_width a > cb_x b \<and>
      cb_y a < cb_y b + cb_height b \<and> cb_y a + cb_height a > cb_y b)"
proof -
  have "checkForCollision g obstacle tRex \<noteq> None \<longleftrightarrow>
      (\<exists>oy. o_yPos obstacle = Some oy \<and>
         boxCompare (tRexBox_of tRex) (obstacleBox_of obstacle oy) \<and>
         (\<exists>tb \<in> set (tRexCollisionBoxes_of g tRex). \<exists>c \<in> set (o_collisionBoxes obstacle).
             boxCompare (createAdjustedCollisionBox tb (tRexBox_of tRex))
                        (createAdjustedCollisionBox c (obstacleBox_of obstacle oy))))"
  proof (cases "o_yPos obstacle")
    case None
    then show ?thesis by (simp add: checkForCollision_def)
  next
    case (Some oy)
    then show ?thesis
      using tRexLoop_Some_iff [of "tRexCollisionBoxes_of g tRex" "o_collisionBoxes obstacle"
          "tRexBox_of tRex" "obstacleBox_of obstacle oy"]
      by (simp add: checkForCollision_def Let_def)
  qed
  moreover have "boxCompare a b \<longleftrightarrow>
      cb_x a < cb_x b + cb_width b \<and> cb_x a + cb_width a > cb_x b \<and>
      cb_y a < cb_y b + cb_height b \<and> cb_y a + cb_height a > cb_y b"
    by (auto simp: boxCompare_def)
  ultimately show ?thesis
    by (simp add: tRexBox_of_def obstacleBox_of_def createAdjustedCollisionBox_def
        new_CollisionBox_def)
qed

theorem C1_checkForCollision_witness:
  "checkForCollision originalStatics sample_cactus sample_tRex \<noteq> None"
proof -
  have outer: "boxCompare (tRexBox_of sample_tRex) (obstacleBox_of sample_cactus 105)"
    by (simp add: boxCompare_def tRexBox_of_def obstacleBox_of_def new_CollisionBox_def
        sample_tRex_def sample_cactus_def CACTUS_SMALL_def)
  have inner: "boxCompare
      (createAdjustedCollisionBox (new_CollisionBox 1 18 30 9) (tRexBox_of sample_tRex))
      (createAdjustedCollisionBox (new_CollisionBox 0 7 5 27) (obstacleBox_of sample_cactus 105))"
    by (simp add: boxCompare_def createAdjustedCollisionBox_def tRexBox_of_def
        obstacleBox_of_def new_CollisionBox_def sample_tRex_def sample_cactus_def
        CACTUS_SMALL_def)
  have tb: "new_CollisionBox 1 18 30 9 \<in> set (tRexCollisionBoxes_of originalStatics sample_tRex)"
    by (simp add: tRexCollisionBoxes_of_def originalStatics_def sample_tRex_def
        Trex_collisionBoxes_RUNNING_def)
  have c: "new_CollisionBox 0 7 5 27 \<in> set (o_collisionBoxes sample_cactus)"
    by (simp add: sample_cactus_def CACTUS_SMALL_def)
  have y: "o_yPos sample_cactus = Some 105"
    by (simp add: sample_cactus_def)
  from C1_checkForCollision [of originalStatics sample_cactus sample_tRex] outer inner tb c y
  show ?thesis by blast
qed

section \<open>LoadTimeData: assertions\<close>

text \<open>
  Claim C9. \<open>getValue(id)\<close> throws if and only if the backing data is unset or \<open>id\<close> maps
  to \<open>undefined\<close>; what it throws is an assertion error; otherwise it returns the stored
  value unchanged. Setting the data when it has been set already throws an assertion
  error and leaves the object as it was.
\<close>

theorem C9_LoadTimeData:
  "((\<exists>e. getValue this ident = Inl e) \<longleftrightarrow>
      ltd_data this = None \<or> (\<exists>d. ltd_data this = Some d \<and> js_get d ident = JUndefined)) \<and>
   ((\<exists>e. getValue this ident = Inl e) \<longrightarrow>
      (\<exists>message. getValue this ident = Inl (AssertionFailed message))) \<and>
   (\<forall>d. ltd_data this = Some d \<and> js_get d ident \<noteq> JUndefined \<longrightarrow>
        getValue this ident = Inr (js_get d ident)) \<and>
   (ltd_data this \<noteq> None \<longrightarrow>
        set_data this v = (Some (AssertionFailed ''Re-setting data.''), this))"
  by (cases "ltd_data this") (auto simp: getValue_def set_data_def js_assert_def Let_def)

theorem C9_LoadTimeData_witness:
  "getValue \<lparr>ltd_data = Some sample_strings\<rparr> ''dinoGameA11yJump'' = Inr (JString ''Jump!'') \<and>
   (\<exists>e. getValue \<lparr>ltd_data = Some sample_strings\<rparr> ''missing'' = Inl e) \<and>
   set_data \<lparr>ltd_data = Some sample_strings\<rparr> Map.empty =
     (Some (AssertionFailed ''Re-setting data.''), \<lparr>ltd_data = Some sample_strings\<rparr>)"
proof -
  have a: "js_get sample_strings ''dinoGameA11yJump'' = JString ''Jump!''"
    by (simp add: js_get_def sample_strings_def)
  have b: "js_get sample_strings ''missing'' = JUndefined"
    by (simp add: js_get_def sample_strings_def)
  from C9_LoadTimeData [of "\<lparr>ltd_data = Some sample_strings\<rparr>" "''dinoGameA11yJump''" Map.empty] a
  have 1: "getValue \<lparr>ltd_data = Some sample_strings\<rparr> ''dinoGameA11yJump'' = Inr (JString ''Jump!'')"
    and 3: "set_data \<lparr>ltd_data = Some sample_strings\<rparr> Map.empty =
     (Some (AssertionFailed ''Re-setting data.''), \<lparr>ltd_data = Some sample_strings\<rparr>)"
    by simp_all
  from C9_LoadTimeData [of "\<lparr>ltd_data = Some sample_strings\<rparr>" "''missing''" Map.empty] b
  have 2: "\<exists>e. getValue \<lparr>ltd_data = Some sample_strings\<rparr> ''missing'' = Inl e"
    by simp
  from 1 2 3 show ?thesis by blast
qed

section \<open>Runner: the speed ramp\<close>

lemma bitlen_eqI:
  assumes "2 ^ k \<le> m" "m < 2 ^ Suc k"
  shows "bitlen m = int k + 1"
proof -
  have "(0::int) < 2 ^ k" by simp
  with assms(1) have pos: "0 < m" by linarith
  from bitlen_bounds [OF pos]
  have b: "2 ^ nat (bitlen m - 1) \<le> m" "m < 2 ^ nat (bitlen m)" by simp_all
  have b1: "1 \<le> bitlen m" using pos by (simp add: bitlen_alt_def)
  from b(1) assms(2) have "(2::int) ^ nat (bitlen m - 1) < 2 ^ Suc k" by linarith
  then have 1: "nat (bitlen m - 1) < Suc k"
    using power_less_imp_less_exp [of 2 "nat (bitlen m - 1)" "Suc k"] by simp
  from assms(1) b(2) have "(2::int) ^ k < 2 ^ nat (bitlen m)" by linarith
  then have 2: "k < nat (bitlen m)" by simp
  from 1 2 b1 show ?thesis by linarith
qed

lemma binade_eqI:
  assumes "pow2 e \<le> \<bar>x\<bar>" "\<bar>x\<bar> < pow2 (e + 1)"
  shows "binade x = e"
proof (cases "0 \<le> e")
  case True
  then have p: "pow2 e = 2 ^ nat e" "pow2 (e + 1) = 2 ^ Suc (nat e)"
    by (simp_all add: pow2_def nat_add_distrib)
  have "(1::real) \<le> 2 ^ nat e" by simp
  with assms(1) p have one: "1 \<le> \<bar>x\<bar>" by linarith
  have "real_of_int (2 ^ nat e) \<le> \<bar>x\<bar>" using assms(1) p by simp
  then have lo: "2 ^ nat e \<le> \<lfloor>\<bar>x\<bar>\<rfloor>" by (simp only: le_floor_iff)
  have "real_of_int \<lfloor>\<bar>x\<bar>\<rfloor> < 2 ^ Suc (nat e)"
    using assms(2) p(2) of_int_floor_le [of "\<bar>x\<bar>"] by linarith
  then have "real_of_int \<lfloor>\<bar>x\<bar>\<rfloor> < real_of_int (2 ^ Suc (nat e))" by simp
  then have hi: "\<lfloor>\<bar>x\<bar>\<rfloor> < 2 ^ Suc (nat e)" by (simp only: of_int_less_iff)
  from bitlen_eqI [OF lo hi] one True show ?thesis by (simp add: binade_def)
next
  case False
  define k where "k = nat (- e - 1)"
  from False have e: "e = - int k - 1" by (simp add: k_def)
  have p: "pow2 e = 1 / 2 ^ Suc k" "pow2 (e + 1) = 1 / 2 ^ k"
    unfolding e by (auto simp: pow2_def nat_add_distrib)
  have "(1::real) / 2 ^ k \<le> 1" by simp
  with assms(2) p have lt1: "\<bar>x\<bar> < 1" by linarith
  have "(0::real) < 1 / 2 ^ Suc k" by simp
  with assms(1) p(1) have pos: "0 < \<bar>x\<bar>" by linarith
  have "1 / \<bar>x\<bar> \<le> 2 ^ Suc k"
    using assms(1) p pos by (simp add: field_simps)
  then have "1 / \<bar>x\<bar> \<le> real_of_int (2 ^ Suc k)" by simp
  then have hi: "\<lceil>1 / \<bar>x\<bar>\<rceil> \<le> 2 ^ Suc k" by (simp only: ceiling_le_iff)
  have "\<bar>x\<bar> < 1 / 2 ^ k" using assms(2) unfolding p(2) .
  then have "2 ^ k < 1 / \<bar>x\<bar>"
    using pos by (simp add: field_simps)
  then have "real_of_int (2 ^ k) < 1 / \<bar>x\<bar>" by simp
  then have lo: "2 ^ k < \<lceil>1 / \<bar>x\<bar>\<rceil>" by (simp only: less_ceiling_iff)
  have "bitlen (\<lceil>1 / \<bar>x\<bar>\<rceil> - 1) = int k + 1"
    by (rule bitlen_eqI) (use lo hi in simp_all)
  with lt1 e show ?thesis by (simp add: binade_def)
qed

lemma double_of_binade:
  assumes "pow2 e \<le> \<bar>x\<bar>" "\<bar>x\<bar> < pow2 (e + 1)"
  shows "double_of x = real_of_int (round_ties_even (x / pow2 (e - 52))) * pow2 (e - 52)"
proof -
  have "0 < pow2 e" by (simp add: pow2_def)
  with assms(1) have "x \<noteq> 0" by auto
  with binade_eqI [OF assms] show ?thesis
    by (simp add: double_of_def Let_def)
qed

lemma round_ties_even_add:
  assumes "r - real_of_int \<lfloor>r\<rfloor> \<noteq> 1 / 2"
  shows "round_ties_even (real_of_int m + r) = m + round_ties_even r"
proof -
  have "\<lfloor>real_of_int m + r\<rfloor> = m + \<lfloor>r\<rfloor>" by simp
  with assms show ?thesis
    by (simp add: round_ties_even_def Let_def)
qed


lemma pow2_simps:
  "pow2 2 = 4" "pow2 3 = 8" "pow2 4 = 16" "pow2 (- 10) = 1 / 2 ^ 10" "pow2 (- 9) = 1 / 2 ^ 9"
  "pow2 (- 49) = 1 / 2 ^ 49" "pow2 (- 50) = 1 / 2 ^ 50" "pow2 (- 62) = 1 / 2 ^ 62"
  by (simp_all add: pow2_def)

lemma ACCELERATION_normal:
  "double_of (1 / 1000) = 1152921504606847 / 2 ^ 60"
proof -
  have "double_of (1 / 1000)
      = real_of_int (round_ties_even ((1 / 1000) / pow2 (- 10 - 52))) * pow2 (- 10 - 52)"
    by (rule double_of_binade) (simp_all add: pow2_simps)
  also have "\<dots> = 1152921504606847 / 2 ^ 60"
    by (simp add: pow2_simps round_ties_even_def Let_def)
  finally show ?thesis .
qed

lemma add_lo:
  assumes "4 \<le> real_of_int m / 2 ^ 50 + 1152921504606847 / 2 ^ 60"
    and "real_of_int m / 2 ^ 50 + 1152921504606847 / 2 ^ 60 < 8"
  shows "double_of (real_of_int m / 2 ^ 50 + 1152921504606847 / 2 ^ 60)
      = real_of_int m / 2 ^ 50 + 1125899906843 / 2 ^ 50"
proof -
  let ?y = "real_of_int m / 2 ^ 50 + 1152921504606847 / 2 ^ 60"
  have a: "pow2 2 \<le> \<bar>?y\<bar>" "\<bar>?y\<bar> < pow2 (2 + 1)"
    using assms by (simp_all add: pow2_simps)
  have s: "?y / pow2 (2 - 52) = real_of_int m + 1152921504606847 / 1024"
    by (simp add: pow2_simps field_simps)
  have r: "round_ties_even (real_of_int m + 1152921504606847 / 1024) = m + 1125899906843"
    by (subst round_ties_even_add) (simp_all add: round_ties_even_def Let_def)
  show ?thesis
    unfolding double_of_binade [OF a] s r by (simp add: pow2_simps field_simps)
qed

lemma add_hi:
  assumes "8 \<le> real_of_int m / 2 ^ 49 + 1152921504606847 / 2 ^ 60"
    and "real_of_int m / 2 ^ 49 + 1152921504606847 / 2 ^ 60 < 16"
  shows "double_of (real_of_int m / 2 ^ 49 + 1152921504606847 / 2 ^ 60)
      = real_of_int m / 2 ^ 49 + 562949953421 / 2 ^ 49"
proof -
  let ?y = "real_of_int m / 2 ^ 49 + 1152921504606847 / 2 ^ 60"
  have a: "pow2 3 \<le> \<bar>?y\<bar>" "\<bar>?y\<bar> < pow2 (3 + 1)"
    using assms by (simp_all add: pow2_simps)
  have s: "?y / pow2 (3 - 52) = real_of_int m + 1152921504606847 / 2048"
    by (simp add: pow2_simps field_simps)
  have r: "round_ties_even (real_of_int m + 1152921504606847 / 2048) = m + 562949953421"
    by (subst round_ties_even_add) (simp_all add: round_ties_even_def Let_def)
  show ?thesis
    unfolding double_of_binade [OF a] s r by (simp add: pow2_simps field_simps)
qed


lemma normal_ramp_step:
  "normal_ramp (Suc n) =
     (if normal_ramp n < 13 then double_of (normal_ramp n + 1152921504606847 / 2 ^ 60)
      else normal_ramp n)"
proof -
  consider "n \<le> 1998" | "n = 1999" | "2000 \<le> n \<and> n \<le> 7000" | "7001 \<le> n" by linarith
  then show ?thesis
  proof cases
    case 1
    define m where "m = 6755399441055744 + int n * 1125899906843"
    from 1 have rn: "real n \<le> 1998" by simp
    have x: "normal_ramp n = real_of_int m / 2 ^ 50"
      using 1 by (simp add: normal_ramp_def m_def field_simps)
    have v: "normal_ramp n = 6 + real n * (1125899906843 / 1125899906842624)"
      using 1 by (simp add: normal_ramp_def)
    have lt: "normal_ramp n < 13" unfolding v using rn by simp
    have lo: "4 \<le> real_of_int m / 2 ^ 50 + 1152921504606847 / 2 ^ 60"
      unfolding x [symmetric] v by simp
    have hi: "real_of_int m / 2 ^ 50 + 1152921504606847 / 2 ^ 60 < 8"
      unfolding x [symmetric] v using rn by simp
    have "double_of (normal_ramp n + 1152921504606847 / 2 ^ 60)
        = normal_ramp n + 1125899906843 / 2 ^ 50"
      unfolding x by (rule add_lo [OF lo hi])
    also have "\<dots> = normal_ramp (Suc n)"
      using 1 by (simp add: normal_ramp_def field_simps)
    finally show ?thesis using lt by simp
  next
    case 2
    have v: "normal_ramp n = 9006073354834901 / 2 ^ 50"
      using 2 by (simp add: normal_ramp_def)
    have w: "normal_ramp (Suc n) = 4503599627370872 / 2 ^ 49"
      using 2 by (simp add: normal_ramp_def)
    let ?y = "9006073354834901 / 2 ^ 50 + 1152921504606847 / 2 ^ 60 :: real"
    have a: "pow2 3 \<le> \<bar>?y\<bar>" "\<bar>?y\<bar> < pow2 (3 + 1)"
      by (simp_all add: pow2_simps)
    have "double_of ?y = 4503599627370872 / 2 ^ 49"
      unfolding double_of_binade [OF a]
      by (simp add: pow2_simps round_ties_even_def Let_def)
    then show ?thesis unfolding v w by simp
  next
    case 3
    define j where "j = n - 2000"
    define m where "m = 4503599627370872 + int j * 562949953421"
    from 3 have n: "n = 2000 + j" and rj: "real j \<le> 5000" by (simp_all add: j_def)
    have v: "normal_ramp n = 4503599627370872 / 562949953421312
        + real j * (562949953421 / 562949953421312)"
      using 3 by (simp add: normal_ramp_def j_def)
    have x: "normal_ramp n = real_of_int m / 2 ^ 49"
      unfolding v by (simp add: m_def field_simps)
    have lt: "normal_ramp n < 13" unfolding v using rj by simp
    have lo: "8 \<le> real_of_int m / 2 ^ 49 + 1152921504606847 / 2 ^ 60"
      unfolding x [symmetric] v by simp
    have hi: "real_of_int m / 2 ^ 49 + 1152921504606847 / 2 ^ 60 < 16"
      unfolding x [symmetric] v using rj by simp
    have "double_of (normal_ramp n + 1152921504606847 / 2 ^ 60)
        = normal_ramp n + 562949953421 / 2 ^ 49"
      unfolding x by (rule add_hi [OF lo hi])
    also have "\<dots> = normal_ramp (Suc n)"
      using 3 unfolding v by (simp add: normal_ramp_def n field_simps)
    finally show ?thesis using lt by simp
  next
    case 4
    then have "normal_ramp n = 7318912344429293 / 2 ^ 49 \<and>
       normal_ramp (Suc n) = 7318912344429293 / 2 ^ 49"
      by (auto simp: normal_ramp_def)
    then show ?thesis by simp
  qed
qed


lemma Runner_update_no_collision:
  "r_playing this \<Longrightarrow>
     Runner_update this deltaTime False =
       this\<lparr>r_distanceRan :=
              js_add (r_distanceRan this)
                (js_div (js_mul (r_currentSpeed this) deltaTime) (r_msPerFrame this)),
            r_currentSpeed := (if r_currentSpeed this < MAX_SPEED (r_config this)
                               then js_add (r_currentSpeed this) (ACCELERATION (r_config this))
                               else r_currentSpeed this)\<rparr>"
  by (simp add: Runner_update_def Let_def)

lemma run_frames_ramp:
  "r_playing r \<Longrightarrow> r_config r = normalConfig \<Longrightarrow> r_currentSpeed r = normal_ramp k \<Longrightarrow>
   r_playing (run_frames r dts) \<and> r_config (run_frames r dts) = normalConfig \<and>
   r_currentSpeed (run_frames r dts) = normal_ramp (k + length dts)"
proof (induction dts arbitrary: r k)
  case Nil
  then show ?case by (simp add: run_frames_def)
next
  case (Cons dt dts)
  let ?r1 = "Runner_update r dt False"
  have p: "r_playing ?r1" and c: "r_config ?r1 = normalConfig"
    using Cons.prems by (simp_all add: Runner_update_no_collision)
  have s: "r_currentSpeed ?r1 = normal_ramp (Suc k)"
    using Cons.prems
    by (simp add: Runner_update_no_collision normalConfig_def js_add_def ACCELERATION_normal
        normal_ramp_step [of k])
  have "run_frames r (dt # dts) = run_frames ?r1 dts"
    by (simp add: run_frames_def)
  with Cons.IH [OF p c s] show ?case by simp
qed

lemma new_Runner_ramp:
  "r_playing (run_frames (new_Runner normalConfig) dts) \<and>
   r_currentSpeed (run_frames (new_Runner normalConfig) dts) = normal_ramp (length dts)"
  using run_frames_ramp [of "new_Runner normalConfig" 0 dts]
  by (simp add: new_Runner_def normalConfig_def normal_ramp_def)

lemma normal_ramp_bound:
  "normal_ramp n \<le> 7318912344429293 / 562949953421312 \<and>
   (n \<le> 7000 \<longrightarrow> normal_ramp n < 13) \<and>
   (7001 \<le> n \<longrightarrow> normal_ramp n = 7318912344429293 / 562949953421312)"
proof -
  consider "n \<le> 1999" | "2000 \<le> n \<and> n \<le> 7000" | "7001 \<le> n" by linarith
  then show ?thesis
  proof cases
    case 1
    then have "real n \<le> 1999" by simp
    with 1 show ?thesis by (simp add: normal_ramp_def)
  next
    case 2
    define j where "j = n - 2000"
    from 2 have n: "n = 2000 + j" and rj: "real j \<le> 5000" by (simp_all add: j_def)
    have "normal_ramp n = 4503599627370872 / 562949953421312
        + real j * (562949953421 / 562949953421312)"
      using 2 by (simp add: normal_ramp_def j_def)
    with rj show ?thesis unfolding n by simp
  next
    case 3
    then show ?thesis by (auto simp: normal_ramp_def)
  qed
qed

lemma double_166: "double_of (166 / 10) = 2336242306698445 / 140737488355328"
  by code_simp

lemma msPerFrame_60: "js_div 1000 FPS = 4691249611844267 / 281474976710656"
  by code_simp

lemma first_distance:
  "js_add 0 (js_div (js_mul 6 (double_of (166 / 10))) (js_div 1000 FPS))
     = 6728377843291521 / 1125899906842624"
  by code_simp

text \<open>
  Claim C4, as stated, fails. From the start speed 6 the speed after 7000 frames
  without a collision is \<open>228698418577371 / 2\<^sup>4\<^sup>4\<close> (12.999999999997897), still below 13,
  so frame 7001 adds once more: the speed is then \<open>7318912344429293 / 2\<^sup>4\<^sup>9\<close>
  (13.000999999997896), above \<open>MAX_SPEED\<close>. And the next frame without a collision
  does not add the acceleration: the speed stays where it is.
\<close>

theorem C4_counterexample:
  "r_playing (run_frames (new_Runner normalConfig) (replicate 7001 (double_of (166 / 10)))) \<and>
   r_currentSpeed (run_frames (new_Runner normalConfig) (replicate 7000 (double_of (166 / 10))))
     = 228698418577371 / 17592186044416 \<and>
   r_currentSpeed (run_frames (new_Runner normalConfig) (replicate 7001 (double_of (166 / 10))))
     = 7318912344429293 / 562949953421312 \<and>
   MAX_SPEED normalConfig < 7318912344429293 / 562949953421312 \<and>
   r_currentSpeed (Runner_update
       (run_frames (new_Runner normalConfig) (replicate 7001 (double_of (166 / 10))))
       (double_of (166 / 10)) False)
     = 7318912344429293 / 562949953421312 \<and>
   js_add (7318912344429293 / 562949953421312) (ACCELERATION normalConfig)
     = 7319475294382714 / 562949953421312"
proof -
  let ?dt = "double_of (166 / 10)"
  let ?r = "run_frames (new_Runner normalConfig) (replicate 7001 ?dt)"
  have p: "r_playing ?r" and s: "r_currentSpeed ?r = 7318912344429293 / 562949953421312"
    using new_Runner_ramp [of "replicate 7001 ?dt"] by (simp_all add: normal_ramp_def)
  have c: "r_config ?r = normalConfig"
    using run_frames_ramp [of "new_Runner normalConfig" 0 "replicate 7001 ?dt"]
    by (simp add: new_Runner_def normalConfig_def normal_ramp_def)
  have s0: "r_currentSpeed (run_frames (new_Runner normalConfig) (replicate 7000 ?dt))
      = 228698418577371 / 17592186044416"
    using new_Runner_ramp [of "replicate 7000 ?dt"] by (simp add: normal_ramp_def)
  have m: "MAX_SPEED normalConfig < 7318912344429293 / 562949953421312"
    by (simp add: normalConfig_def)
  have u: "r_currentSpeed (Runner_update ?r ?dt False) = 7318912344429293 / 562949953421312"
    using p s c by (simp add: Runner_update_no_collision normalConfig_def)
  have "js_add (real_of_int 7318912344429293 / 2 ^ 49) (ACCELERATION normalConfig)
      = real_of_int 7318912344429293 / 2 ^ 49 + 562949953421 / 2 ^ 49"
    unfolding js_add_def normalConfig_def RunnerConfig.simps ACCELERATION_normal
    by (rule add_hi) simp_all
  then have a: "js_add (7318912344429293 / 562949953421312) (ACCELERATION normalConfig)
      = 7319475294382714 / 562949953421312"
    by simp
  from p s0 s m u a show ?thesis by (intro conjI)
qed

text \<open>
  Claim C4, amended. On every frame without a collision, while the game is playing, the
  loop adds \<open>currentSpeed * deltaTime / msPerFrame\<close> to the distance, and adds the
  acceleration to the current speed only while the current speed is below \<open>MAX_SPEED\<close>
  (each operation with its rounding). From the start speed 6 with acceleration 0.001
  the speed after \<open>n\<close> frames without a collision is \<open>normal_ramp n\<close>, whatever the
  times of the frames: it is below 13 up to frame 7000, and from frame 7001 on it
  stays at \<open>7318912344429293 / 2\<^sup>4\<^sup>9\<close> (13.000999999997896), above \<open>MAX_SPEED\<close> by less
  than one acceleration. After 1000 frames it is \<open>985162418487343 / 2\<^sup>4\<^sup>7\<close>
  (7.000000000000334), below 13.
\<close>

theorem C4_speed_ramp:
  "(r_playing this \<longrightarrow>
      r_distanceRan (Runner_update this deltaTime False) =
        js_add (r_distanceRan this)
          (js_div (js_mul (r_currentSpeed this) deltaTime) (r_msPerFrame this)) \<and>
      r_currentSpeed (Runner_update this deltaTime False) =
        (if r_currentSpeed this < MAX_SPEED (r_config this)
         then js_add (r_currentSpeed this) (ACCELERATION (r_config this))
         else r_currentSpeed this)) \<and>
   r_currentSpeed (run_frames (new_Runner normalConfig) dts) = normal_ramp (length dts) \<and>
   (length dts \<le> 7000 \<longrightarrow> r_currentSpeed (run_frames (new_Runner normalConfig) dts) < 13) \<and>
   (7001 \<le> length dts \<longrightarrow>
      r_currentSpeed (run_frames (new_Runner normalConfig) dts)
        = 7318912344429293 / 562949953421312) \<and>
   r_currentSpeed (run_frames (new_Runner normalConfig) dts)
     < MAX_SPEED normalConfig + ACCELERATION normalConfig \<and>
   (length dts = 1000 \<longrightarrow>
      r_currentSpeed (run_frames (new_Runner normalConfig) dts)
        = 985162418487343 / 140737488355328 \<and>
      r_currentSpeed (run_frames (new_Runner normalConfig) dts) < 13)"
proof -
  note r = new_Runner_ramp [of dts, THEN conjunct2]
  note b = normal_ramp_bound [of "length dts"]
  have 1: "r_playing this \<longrightarrow>
      r_distanceRan (Runner_update this deltaTime False) =
        js_add (r_distanceRan this)
          (js_div (js_mul (r_currentSpeed this) deltaTime) (r_msPerFrame this)) \<and>
      r_currentSpeed (Runner_update this deltaTime False) =
        (if r_currentSpeed this < MAX_SPEED (r_config this)
         then js_add (r_currentSpeed this) (ACCELERATION (r_config this))
         else r_currentSpeed this)"
    by (simp add: Runner_update_no_collision)
  have 3: "length dts \<le> 7000 \<longrightarrow> r_currentSpeed (run_frames (new_Runner normalConfig) dts) < 13"
    unfolding r using b by blast
  have 4: "7001 \<le> length dts \<longrightarrow>
      r_currentSpeed (run_frames (new_Runner normalConfig) dts)
        = 7318912344429293 / 562949953421312"
    unfolding r using b by blast
  have "normal_ramp (length dts) \<le> 7318912344429293 / 562949953421312"
    using b by blast
  then have 5: "r_currentSpeed (run_frames (new_Runner normalConfig) dts)
     < MAX_SPEED normalConfig + ACCELERATION normalConfig"
    unfolding r by (simp add: normalConfig_def ACCELERATION_normal)
  have 6: "length dts = 1000 \<longrightarrow>
      r_currentSpeed (run_frames (new_Runner normalConfig) dts)
        = 985162418487343 / 140737488355328 \<and>
      r_currentSpeed (run_frames (new_Runner normalConfig) dts) < 13"
    unfolding r by (simp add: normal_ramp_def)
  from 1 r 3 4 5 6 show ?thesis by (intro conjI)
qed

theorem C4_speed_ramp_witness:
  "r_playing (new_Runner normalConfig) \<and>
   r_currentSpeed (new_Runner normalConfig) = 6 \<and>
   r_currentSpeed (Runner_update (new_Runner normalConfig) (double_of (166 / 10)) False)
     = 6756525340962587 / 1125899906842624 \<and>
   r_distanceRan (Runner_update (new_Runner normalConfig) (double_of (166 / 10)) False)
     = 6728377843291521 / 1125899906842624 \<and>
   length (replicate 1000 (double_of (166 / 10))) = 1000 \<and>
   r_currentSpeed (run_frames (new_Runner normalConfig) (replicate 1000 (double_of (166 / 10))))
     = 985162418487343 / 140737488355328 \<and>
   length (replicate 7001 (double_of (166 / 10))) = 7001 \<and>
   r_currentSpeed (run_frames (new_Runner normalConfig) (replicate 7001 (double_of (166 / 10))))
     = 7318912344429293 / 562949953421312"
proof -
  let ?dt = "double_of (166 / 10)"
  have p: "r_playing (new_Runner normalConfig)"
    "r_currentSpeed (new_Runner normalConfig) = 6"
    "r_distanceRan (new_Runner normalConfig) = 0"
    "r_msPerFrame (new_Runner normalConfig) = js_div 1000 FPS"
    "r_config (new_Runner normalConfig) = normalConfig"
    by (simp_all add: new_Runner_def normalConfig_def)
  have a: "js_add 6 (ACCELERATION normalConfig) = 6756525340962587 / 1125899906842624"
    using normal_ramp_step [of 0]
    by (simp add: normal_ramp_def js_add_def normalConfig_def ACCELERATION_normal)
  note T = C4_speed_ramp [of "new_Runner normalConfig" ?dt "replicate 1000 ?dt"]
  note U = C4_speed_ramp [of "new_Runner normalConfig" ?dt "replicate 7001 ?dt"]
  have m: "(6::real) < MAX_SPEED normalConfig"
    by (simp add: normalConfig_def)
  from T p(1)
  have t1: "r_distanceRan (Runner_update (new_Runner normalConfig) ?dt False) =
        js_add (r_distanceRan (new_Runner normalConfig))
          (js_div (js_mul (r_currentSpeed (new_Runner normalConfig)) ?dt)
             (r_msPerFrame (new_Runner normalConfig)))"
    and t2: "r_currentSpeed (Runner_update (new_Runner normalConfig) ?dt False) =
        (if r_currentSpeed (new_Runner normalConfig) < MAX_SPEED (r_config (new_Runner normalConfig))
         then js_add (r_currentSpeed (new_Runner normalConfig))
                (ACCELERATION (r_config (new_Runner normalConfig)))
         else r_currentSpeed (new_Runner normalConfig))"
    by blast+
  from t2 have 1: "r_currentSpeed (Runner_update (new_Runner normalConfig) ?dt False)
     = 6756525340962587 / 1125899906842624"
    by (simp only: p m if_True a)
  from t1 have 2: "r_distanceRan (Runner_update (new_Runner normalConfig) ?dt False)
     = 6728377843291521 / 1125899906842624"
    by (simp only: p first_distance)
  have l: "length (replicate 1000 ?dt) = 1000" "length (replicate 7001 ?dt) = 7001"
    by simp_all
  from T l(1) have 3: "r_currentSpeed (run_frames (new_Runner normalConfig) (replicate 1000 ?dt))
     = 985162418487343 / 140737488355328"
    by blast
  from U l(2) have 4: "r_currentSpeed (run_frames (new_Runner normalConfig) (replicate 7001 ?dt))
     = 7318912344429293 / 562949953421312"
    by simp
  from p(1,2) 1 2 l(1) 3 l(2) 4 show ?thesis by (intro conjI)
qed

section \<open>Snake: the loops, the reset and the tick\<close>





lemma pickObstacle_accept:
  "randomCell T rnd i \<notin> set (snake st) \<Longrightarrow> randomCell T rnd i \<noteq> food st \<Longrightarrow>
   randomCell T rnd i \<notin> set (obstacles st) \<Longrightarrow>
   pickObstacle T rnd i st = Some (randomCell T rnd i, i + 2)"
  by (subst pickObstacle.simps) (simp add: Let_def)

lemma pickObstacle_reject:
  "randomCell T rnd i \<in> set (snake st) \<or> randomCell T rnd i = food st \<or>
   randomCell T rnd i \<in> set (obstacles st) \<Longrightarrow>
   pickObstacle T rnd i st = pickObstacle T rnd (i + 2) st"
  by (subst pickObstacle.simps) (simp add: Let_def)

lemma reset_cells:
  "randomCell 20 reset_draws 0 = (10, 10)"
  "randomCell 20 reset_draws 2 = (1, 1)"
  "randomCell 20 reset_draws 4 = (2, 2)"
  "randomCell 20 reset_draws 6 = (3, 3)"
  "randomCell 20 reset_draws 8 = (4, 4)"
  "randomCell 20 reset_draws 10 = (5, 5)"
  by (simp_all add: randomCell_def reset_draws_def)

lemma generateObstacles_five:
  "pickObstacle T rnd i (st\<lparr>obstacles := []\<rparr>) = Some (o1, i1) \<Longrightarrow>
   pickObstacle T rnd i1 (st\<lparr>obstacles := [o1]\<rparr>) = Some (o2, i2) \<Longrightarrow>
   pickObstacle T rnd i2 (st\<lparr>obstacles := [o1, o2]\<rparr>) = Some (o3, i3) \<Longrightarrow>
   pickObstacle T rnd i3 (st\<lparr>obstacles := [o1, o2, o3]\<rparr>) = Some (o4, i4) \<Longrightarrow>
   pickObstacle T rnd i4 (st\<lparr>obstacles := [o1, o2, o3, o4]\<rparr>) = Some (o5, i5) \<Longrightarrow>
   generateObstacles T rnd i st = Some (st\<lparr>obstacles := [o1, o2, o3, o4, o5]\<rparr>, i5)"
  by (simp add: generateObstacles_def eval_nat_numeral)


lemma drawGame_step:
  assumes "snake st \<noteq> []" and "head = nextHead st"
  shows "drawGame T rnd i st =
    (if outOfGrid T head
     then (if isWrapAround st then Some (Inl TypeError)
           else map_option Inr (gameOver T rnd i st))
     else if head \<in> set (obstacles st)
     then map_option Inr (gameOver T rnd i st)
     else if head = food st
     then (case placeFood T rnd (i + 2)
                 (st\<lparr>snake := head # snake st, score := score st + 10,
                     food := randomCell T rnd i\<rparr>) of
             None \<Rightarrow> None
           | Some (st3, j) \<Rightarrow>
               (let st4 = updateGameSpeed (st3\<lparr>gameSpeed := gameSpeed st3 * (95 / 100)\<rparr>)
                in if head \<in> set (tl (snake st4))
                   then map_option Inr (gameOver T rnd j st4)
                   else Some (Inr (st4, j))))
     else if head \<in> set (butlast (snake st))
     then map_option Inr (gameOver T rnd i (st\<lparr>snake := head # butlast (snake st)\<rparr>))
     else Some (Inr (st\<lparr>snake := head # butlast (snake st)\<rparr>, i)))"
proof -
  from assms(1) obtain s0 rest where sn: "snake st = s0 # rest"
    by (cases "snake st") auto
  then have h: "head = (fst s0 + dx st, snd s0 + dy st)"
    using assms(2) by (simp add: nextHead_def)
  show ?thesis
    unfolding drawGame_def outOfGrid_def h [symmetric] sn list.case Let_def
    by (auto split: option.splits simp: sn h)
qed

text \<open>The reset on a 20 by 20 grid under the draws \<open>reset_draws\<close>, from any state.\<close>

lemma gameOver_reset_draws:
  "gameOver 20 reset_draws 0 st = Some (after_reset, 12)"
proof -
  define st1 where "st1 = st\<lparr>snake := [(10, 10)], dx := 0, dy := 0, score := 0,
      gameSpeed := 100, isFastMode := False, isSlowMode := False, isWrapAround := False,
      food := (10, 10)\<rparr>"
  have 1: "pickObstacle 20 reset_draws 2 (st1\<lparr>obstacles := []\<rparr>) = Some ((1, 1), 4)"
    by (simp add: pickObstacle_accept reset_cells st1_def)
  have 2: "pickObstacle 20 reset_draws 4 (st1\<lparr>obstacles := [(1, 1)]\<rparr>) = Some ((2, 2), 6)"
    by (simp add: pickObstacle_accept reset_cells st1_def)
  have 3: "pickObstacle 20 reset_draws 6 (st1\<lparr>obstacles := [(1, 1), (2, 2)]\<rparr>) = Some ((3, 3), 8)"
    by (simp add: pickObstacle_accept reset_cells st1_def)
  have 4: "pickObstacle 20 reset_draws 8 (st1\<lparr>obstacles := [(1, 1), (2, 2), (3, 3)]\<rparr>)
      = Some ((4, 4), 10)"
    by (simp add: pickObstacle_accept reset_cells st1_def)
  have 5: "pickObstacle 20 reset_draws 10 (st1\<lparr>obstacles := [(1, 1), (2, 2), (3, 3), (4, 4)]\<rparr>)
      = Some ((5, 5), 12)"
    by (simp add: pickObstacle_accept reset_cells st1_def)
  have "generateObstacles 20 reset_draws 2 st1
      = Some (st1\<lparr>obstacles := [(1, 1), (2, 2), (3, 3), (4, 4), (5, 5)]\<rparr>, 12)"
    by (rule generateObstacles_five [OF 1 2 3 4 5])
  then have "generateObstacles 20 reset_draws (Suc (Suc 0)) st1
      = Some (st1\<lparr>obstacles := [(1, 1), (2, 2), (3, 3), (4, 4), (5, 5)]\<rparr>, 12)"
    by (simp add: numeral_2_eq_2)
  then show ?thesis
    by (cases st) (simp add: gameOver_def reset_cells st1_def after_reset_def updateGameSpeed_def)
qed

text \<open>\<open>wrapAround\<close> itself maps a coordinate one step out of a grid of size \<open>T\<close> back
  into \<open>[0, T - 1]\<close>.\<close>

lemma wrapAround_in_grid:
  assumes "0 < T" and "- T \<le> fst c" and "- T \<le> snd c"
  shows "wrapAround T c = (Some ((fst c + T) mod T), Some ((snd c + T) mod T)) \<and>
         0 \<le> (fst c + T) mod T \<and> (fst c + T) mod T < T \<and>
         0 \<le> (snd c + T) mod T \<and> (snd c + T) mod T < T"
proof -
  have r: "js_rem a T = Some (a mod T)" if "0 \<le> a" for a :: int
    using that assms(1) by (cases "a = 0") (simp_all add: js_rem_def sgn_if)
  have "0 \<le> fst c + T" "0 \<le> snd c + T" using assms(2,3) by simp_all
  then have "wrapAround T c = (Some ((fst c + T) mod T), Some ((snd c + T) mod T))"
    unfolding wrapAround_def by (simp only: r)
  with assms(1) show ?thesis by simp
qed

text \<open>
  Claim C5 (the code fails it). With wraparound on, a tick whose new head is one step
  out of the grid does not continue with the wrapped head: \<open>wrapAround\<close> computes the
  wrapped coordinates \<open>(19, 10)\<close>, but the assignment of its result to the constant
  \<open>head\<close> throws, and the tick ends with a TypeError and the snake where it was.
\<close>

theorem C5_wraparound_tick_throws:
  "isWrapAround wall_snake \<and> nextHead wall_snake = (- 1, 10) \<and>
   wrapAround 20 (- 1, 10) = (Some 19, Some 10) \<and>
   drawGame 20 rnd i wall_snake = Some (Inl TypeError)"
  by (simp add: drawGame_def wall_snake_def wrapAround_def js_rem_def Let_def nextHead_def)





text \<open>
  Claim C7 (the code fails it). The game over reset draws the new food once, with no
  check against the snake: when both draws give 10 on a 20 by 20 grid the food lies on
  the only segment of the reset snake. (The obstacles, drawn after the food, avoid the
  snake, the food and each other, and the food drawn after a meal avoids the snake and
  the obstacles: \<open>gameOver_result\<close>, \<open>placeFood_result\<close>.)
\<close>

theorem C7_reset_food_on_snake:
  "gameOver 20 reset_draws 0 sample_snake = Some (after_reset, 12) \<and>
   snake after_reset = [(10, 10)] \<and> food after_reset = (10, 10) \<and>
   food after_reset \<in> set (snake after_reset)"
  by (simp add: gameOver_reset_draws after_reset_def)

section \<open>Snake: the direction keys\<close>

lemma changeDirection_dir:
  "(dx (changeDirection k st), dy (changeDirection k st)) =
     (if k = 37 \<and> dx st \<noteq> 1 then (- 1, 0)
      else if k = 38 \<and> dy st \<noteq> 1 then (0, - 1)
      else if k = 39 \<and> dx st \<noteq> - 1 then (1, 0)
      else if k = 40 \<and> dy st \<noteq> - 1 then (0, 1)
      else (dx st, dy st))"
  by (simp add: changeDirection_def Let_def toggleFastMode_def toggleSlowMode_def
      toggleWrapAround_def disableWrapAround_def updateGameSpeed_def)

lemma changeDirection_snake: "snake (changeDirection k st) = snake st"
  by (simp add: changeDirection_def Let_def toggleFastMode_def toggleSlowMode_def
      toggleWrapAround_def disableWrapAround_def updateGameSpeed_def)

text \<open>
  What the guards of \<open>changeDirection\<close> do give. One keydown event never sets the
  direction of a moving snake to the exact reverse of the direction it has when the
  event is handled: the left arrow (37) is ignored while \<open>dx = 1\<close>, the right arrow (39)
  while \<open>dx = - 1\<close>, the up arrow (38) while \<open>dy = 1\<close>, the down arrow (40) while
  \<open>dy = - 1\<close>.
\<close>

lemma changeDirection_single_event:
  "((dx st, dy st) \<noteq> (0, 0) \<longrightarrow>
      (dx (changeDirection k st), dy (changeDirection k st)) \<noteq> (- dx st, - dy st)) \<and>
   (dx st = 1 \<longrightarrow> dx (changeDirection 37 st) = dx st \<and> dy (changeDirection 37 st) = dy st) \<and>
   (dx st = - 1 \<longrightarrow> dx (changeDirection 39 st) = dx st \<and> dy (changeDirection 39 st) = dy st) \<and>
   (dy st = 1 \<longrightarrow> dx (changeDirection 38 st) = dx st \<and> dy (changeDirection 38 st) = dy st) \<and>
   (dy st = - 1 \<longrightarrow> dx (changeDirection 40 st) = dx st \<and> dy (changeDirection 40 st) = dy st)"
  using changeDirection_dir [of k st] changeDirection_dir [of 37 st]
    changeDirection_dir [of 38 st] changeDirection_dir [of 39 st] changeDirection_dir [of 40 st]
  by (auto split: if_splits)

text \<open>
  Claim C10 (the code fails it). The guards compare the key with the direction that is
  current when the event is handled, not with the direction of the last move. Two
  events between two ticks reverse the snake: a snake that moves right, after the up
  arrow (38) and then the left arrow (37), has the direction \<open>(- 1, 0)\<close>, the reverse
  of \<open>(1, 0)\<close>, and its next head position is its own neck \<open>(9, 10)\<close>. With three
  segments the tick that follows ends in the game over reset; with two segments the
  snake turns round on the spot.
\<close>

theorem C10_two_events_reverse:
  "(dx straight_snake, dy straight_snake) = (1, 0) \<and>
   snake straight_snake = [(10, 10), (9, 10), (8, 10)] \<and>
   (dx (changeDirection 38 straight_snake), dy (changeDirection 38 straight_snake)) = (0, - 1) \<and>
   (dx (changeDirection 37 (changeDirection 38 straight_snake)),
    dy (changeDirection 37 (changeDirection 38 straight_snake))) = (- 1, 0) \<and>
   snake (changeDirection 37 (changeDirection 38 straight_snake)) = snake straight_snake \<and>
   nextHead (changeDirection 37 (changeDirection 38 straight_snake)) = (9, 10) \<and>
   drawGame 20 reset_draws 0 (changeDirection 37 (changeDirection 38 straight_snake))
     = Some (Inr (after_reset, 12)) \<and>
   (dx sample_snake, dy sample_snake) = (1, 0) \<and>
   snake sample_snake = [(10, 10), (9, 10)] \<and>
   nextHead (changeDirection 37 (changeDirection 38 sample_snake)) = (9, 10) \<and>
   drawGame 20 reset_draws 0 (changeDirection 37 (changeDirection 38 sample_snake))
     = Some (Inr (changeDirection 37 (changeDirection 38 sample_snake)
                    \<lparr>snake := [(9, 10), (10, 10)]\<rparr>, 0))"
proof -
  let ?s = "changeDirection 37 (changeDirection 38 straight_snake)"
  let ?t = "changeDirection 37 (changeDirection 38 sample_snake)"
  have d1: "(dx (changeDirection 38 straight_snake), dy (changeDirection 38 straight_snake)) = (0, - 1)"
    by (simp add: changeDirection_dir straight_snake_def)
  then have d1': "dx (changeDirection 38 straight_snake) = 0"
    "dy (changeDirection 38 straight_snake) = - 1"
    by simp_all
  have d2: "(dx ?s, dy ?s) = (- 1, 0)"
    by (simp add: changeDirection_dir [of 37] d1')
  have s: "snake ?s = [(10, 10), (9, 10), (8, 10)]"
    by (simp add: changeDirection_snake straight_snake_def)
  have o: "obstacles ?s = [(0, 0)]" "food ?s = (3, 4)"
    by (simp_all add: changeDirection_def Let_def straight_snake_def)
  from d2 s have n: "nextHead ?s = (9, 10)"
    by (simp add: nextHead_def)
  have ne: "snake ?s \<noteq> []" using s by simp
  have g: "drawGame 20 reset_draws 0 ?s = Some (Inr (after_reset, 12))"
    unfolding drawGame_step [OF ne refl] n
    by (simp add: s o outOfGrid_def gameOver_reset_draws)
  have e1: "(dx (changeDirection 38 sample_snake), dy (changeDirection 38 sample_snake)) = (0, - 1)"
    by (simp add: changeDirection_dir sample_snake_def)
  then have e1': "dx (changeDirection 38 sample_snake) = 0"
    "dy (changeDirection 38 sample_snake) = - 1"
    by simp_all
  have e2: "(dx ?t, dy ?t) = (- 1, 0)"
    by (simp add: changeDirection_dir [of 37] e1')
  have t: "snake ?t = [(10, 10), (9, 10)]"
    by (simp add: changeDirection_snake sample_snake_def)
  have p: "obstacles ?t = [(0, 0)]" "food ?t = (3, 4)"
    by (simp_all add: changeDirection_def Let_def sample_snake_def)
  from e2 t have m: "nextHead ?t = (9, 10)"
    by (simp add: nextHead_def)
  have nt: "snake ?t \<noteq> []" using t by simp
  have h: "drawGame 20 reset_draws 0 ?t = Some (Inr (?t\<lparr>snake := [(9, 10), (10, 10)]\<rparr>, 0))"
    unfolding drawGame_step [OF nt refl] m
    by (simp add: t p outOfGrid_def)
  have i: "(dx straight_snake, dy straight_snake) = (1, 0)"
    "snake straight_snake = [(10, 10), (9, 10), (8, 10)]"
    "(dx sample_snake, dy sample_snake) = (1, 0)" "snake sample_snake = [(10, 10), (9, 10)]"
    by (simp_all add: straight_snake_def sample_snake_def)
  have s': "snake ?s = snake straight_snake" using s i by simp
  from i d1 d2 s' n g m h show ?thesis by (intro conjI)
qed

section \<open>Obstacle: the gap\<close>

lemma getRandomNum_range:
  assumes "0 \<le> r" "r < 1" "mn \<le> mx"
  shows "mn \<le> getRandomNum r mn mx \<and> getRandomNum r mn mx \<le> mx"
proof -
  let ?n = "real_of_int (mx - mn + 1)"
  have n: "1 \<le> ?n" using assms(3) by simp
  have lo: "0 \<le> r * ?n" using assms(1) n by simp
  have "r * ?n < 1 * ?n" using assms(2) n by (intro mult_strict_right_mono) auto
  then have hi: "r * ?n < real_of_int (mx - mn + 1)" by simp
  from lo have "0 \<le> \<lfloor>r * ?n\<rfloor>" by simp
  moreover from hi have "\<lfloor>r * ?n\<rfloor> < mx - mn + 1" by (simp only: floor_less_iff)
  ultimately show ?thesis by (simp add: getRandomNum_def)
qed

lemma getRandomNum_eq_iff:
  "getRandomNum r mn mx = k \<longleftrightarrow>
     real_of_int (k - mn) \<le> r * real_of_int (mx - mn + 1) \<and>
     r * real_of_int (mx - mn + 1) < real_of_int (k - mn + 1)"
proof -
  have "getRandomNum r mn mx = k \<longleftrightarrow> \<lfloor>r * real_of_int (mx - mn + 1)\<rfloor> = k - mn"
    by (auto simp: getRandomNum_def)
  then show ?thesis by (simp only: floor_eq_iff) simp
qed

lemma maxGap_range:
  assumes "MAX_GAP_COEFFICIENT g = 3 / 2" "0 \<le> m"
  shows "m \<le> Obstacle_maxGap g m \<and>
         real_of_int (Obstacle_maxGap g m) \<le> 3 / 2 * real_of_int m + 1 / 2"
proof -
  define v where "v = real_of_int m * (3 / 2) + 1 / 2"
  have mg: "Obstacle_maxGap g m = \<lfloor>v\<rfloor>"
    unfolding Obstacle_maxGap_def Math_round_def assms(1) v_def ..
  have "real_of_int m \<le> v" using assms(2) by (simp add: v_def)
  then have lo: "m \<le> \<lfloor>v\<rfloor>" by (simp only: le_floor_iff)
  have "real_of_int \<lfloor>v\<rfloor> \<le> v" by (rule of_int_floor_le)
  also have "v = 3 / 2 * real_of_int m + 1 / 2" by (simp add: v_def)
  finally have hi: "real_of_int \<lfloor>v\<rfloor> \<le> 3 / 2 * real_of_int m + 1 / 2" .
  from lo hi show ?thesis unfolding mg by blast
qed

lemma init_size_fields:
  "o_typeConfig (init_size this0 speed) = o_typeConfig this0 \<and>
   o_gapCoefficient (init_size this0 speed) = o_gapCoefficient this0 \<and>
   o_width (init_size this0 speed) =
     t_width (o_typeConfig this0) * real_of_int (o_size (init_size this0 speed))"
  by (simp add: init_size_def Let_def)

lemma init_yPos_fields:
  "init_yPos g rnd i this = (this', i') \<Longrightarrow>
   o_typeConfig this' = o_typeConfig this \<and> o_gapCoefficient this' = o_gapCoefficient this \<and>
   o_width this' = o_width this \<and> o_size this' = o_size this \<and>
   o_collisionBoxes this' = o_collisionBoxes this"
  by (auto simp: init_yPos_def Let_def split: yPos_config.splits)

lemma init_boxes_fields:
  "init_boxes this = Inr this' \<Longrightarrow>
   o_typeConfig this' = o_typeConfig this \<and> o_gapCoefficient this' = o_gapCoefficient this \<and>
   o_width this' = o_width this \<and> o_size this' = o_size this"
  by (auto simp: init_boxes_def split: if_splits sum.splits)

lemma init_speedOffset_fields:
  "init_speedOffset rnd i this = (this', i') \<Longrightarrow>
   o_typeConfig this' = o_typeConfig this \<and> o_gapCoefficient this' = o_gapCoefficient this \<and>
   o_width this' = o_width this \<and> o_size this' = o_size this"
  by (auto simp: init_speedOffset_def split: option.splits if_splits)

lemma init_gap_fields:
  "init_gap g rnd i this speed = (ob, j) \<Longrightarrow>
   j = Suc i \<and>
   o_gap ob = (if audioCues g then getGap g (rnd i) ob (o_gapCoefficient ob) speed * 2
               else getGap g (rnd i) ob (o_gapCoefficient ob) speed) \<and>
   o_typeConfig ob = o_typeConfig this \<and> o_gapCoefficient ob = o_gapCoefficient this \<and>
   o_width ob = o_width this \<and> o_size ob = o_size this"
  by (auto simp: init_gap_def Let_def getGap_def Obstacle_minGap_def split: if_splits)

lemma Obstacle_init_gap:
  assumes "Obstacle_init g rnd i this0 speed = Inr (ob, j)"
  shows "j > 0 \<and>
         o_gap ob = (if audioCues g then getGap g (rnd (j - 1)) ob (o_gapCoefficient ob) speed * 2
                     else getGap g (rnd (j - 1)) ob (o_gapCoefficient ob) speed) \<and>
         o_gapCoefficient ob = o_gapCoefficient this0 \<and> o_typeConfig ob = o_typeConfig this0 \<and>
         o_width ob = t_width (o_typeConfig ob) * real_of_int (o_size ob)"
proof -
  obtain this1 i1 where y: "init_yPos g rnd i (init_size this0 speed) = (this1, i1)"
    by (cases "init_yPos g rnd i (init_size this0 speed)") auto
  from assms y obtain this2 where b: "init_boxes this1 = Inr this2"
    by (auto simp: Obstacle_init_def split: sum.splits prod.splits)
  obtain this3 i3 where so: "init_speedOffset rnd i1 this2 = (this3, i3)"
    by (cases "init_speedOffset rnd i1 this2") auto
  from assms y b so have gp: "init_gap g rnd i3 this3 speed = (ob, j)"
    by (simp add: Obstacle_init_def)
  from init_size_fields [of this0 speed] init_yPos_fields [OF y] init_boxes_fields [OF b]
    init_speedOffset_fields [OF so] init_gap_fields [OF gp]
  show ?thesis by simp
qed

lemma new_Obstacle_gap:
  assumes "new_Obstacle g rnd i type W gapCoefficient speed xOffset = Inr (ob, j)"
  shows "j > 0 \<and>
         o_gap ob = (if audioCues g then getGap g (rnd (j - 1)) ob (o_gapCoefficient ob) speed * 2
                     else getGap g (rnd (j - 1)) ob (o_gapCoefficient ob) speed) \<and>
         o_gapCoefficient ob = (if slowDown g then gapCoefficient * 2 else gapCoefficient) \<and>
         o_typeConfig ob = type \<and>
         o_width ob = t_width type * real_of_int (o_size ob)"
  using Obstacle_init_gap [OF assms [unfolded new_Obstacle_def]] by simp

lemma spawned_cactus_eq:
  "new_Obstacle originalStatics cactus_draws 0 CACTUS_SMALL 600 (6 / 10) (121 / 20) 17
     = Inr (spawned_cactus, 2)"
  by (simp add: new_Obstacle_def Obstacle_init_def init_size_def init_yPos_def init_boxes_def
      init_speedOffset_def init_gap_def getGap_def Obstacle_minGap_def Obstacle_maxGap_def
      Math_round_def getRandomNum_def originalStatics_def cactus_draws_def CACTUS_SMALL_def
      spawned_cactus_def Let_def)


text \<open>
  Claim C2, as stated, fails: a small cactus spawned at speed 6.05 with gap coefficient
  0.6 has \<open>minGap = round(17 * 6.05 + 120 * 0.6) = 175\<close>, and with the draw 0.99 its gap
  is \<open>round(175 * 1.5) = 263\<close>, which is more than \<open>1.5 * 175 = 262.5\<close>.
\<close>

theorem C2_counterexample:
  "new_Obstacle originalStatics cactus_draws 0 CACTUS_SMALL 600 (6 / 10) (121 / 20) 17
     = Inr (spawned_cactus, 2) \<and>
   Obstacle_minGap spawned_cactus (o_gapCoefficient spawned_cactus) (121 / 20) = 175 \<and>
   o_gap spawned_cactus = 263 \<and>
   \<not> real_of_int (o_gap spawned_cactus)
       \<le> 3 / 2 * real_of_int (Obstacle_minGap spawned_cactus (o_gapCoefficient spawned_cactus) (121 / 20))"
proof -
  have 2: "Obstacle_minGap spawned_cactus (o_gapCoefficient spawned_cactus) (121 / 20) = 175"
    by (simp add: Obstacle_minGap_def Math_round_def spawned_cactus_def CACTUS_SMALL_def)
  have 3: "o_gap spawned_cactus = 263"
    by (simp add: spawned_cactus_def)
  have 4: "\<not> real_of_int (o_gap spawned_cactus)
       \<le> 3 / 2 * real_of_int (Obstacle_minGap spawned_cactus (o_gapCoefficient spawned_cactus) (121 / 20))"
    unfolding 2 3 by simp
  from spawned_cactus_eq 2 3 4 show ?thesis by (intro conjI)
qed

text \<open>
  Claim C2, amended. For an obstacle spawned at speed \<open>s\<close>, let
  \<open>minGap = round(width * s + type.minGap * gapCoefficient)\<close>, with the obstacle's own
  width (the width of the type times the size) and gap coefficient (doubled in slow
  mode), and suppose \<open>minGap\<close> is not negative. Then \<open>getGap\<close> yields an integer \<open>gap\<close> with
  \<open>minGap \<le> gap \<le> maxGap\<close>, where \<open>maxGap = round(minGap * 1.5) \<le> 1.5 * minGap + 0.5\<close>; it is
  \<open>k\<close> exactly when the draw \<open>r\<close> has \<open>k - minGap \<le> r * (maxGap - minGap + 1) < k - minGap + 1\<close>,
  so a uniform draw gives a uniform integer of that range. The gap assigned to the
  obstacle is that value, or twice that value when the audio cues are on.
\<close>

theorem C2_gap_range:
  assumes "valid_random rnd" and "MAX_GAP_COEFFICIENT g = 3 / 2"
    and "new_Obstacle g rnd i type W gapCoefficient speed xOffset = Inr (ob, j)"
    and "minGap = Obstacle_minGap ob (o_gapCoefficient ob) speed" and "0 \<le> minGap"
    and "maxGap = Math_round (real_of_int minGap * (3 / 2))"
    and "gap = getGap g (rnd (j - 1)) ob (o_gapCoefficient ob) speed"
  shows "o_gap ob = (if audioCues g then gap * 2 else gap) \<and>
         minGap \<le> gap \<and> gap \<le> maxGap \<and>
         real_of_int maxGap \<le> 3 / 2 * real_of_int minGap + 1 / 2 \<and>
         (\<forall>k. gap = k \<longleftrightarrow>
              real_of_int (k - minGap) \<le> rnd (j - 1) * real_of_int (maxGap - minGap + 1) \<and>
              rnd (j - 1) * real_of_int (maxGap - minGap + 1) < real_of_int (k - minGap + 1)) \<and>
         o_gapCoefficient ob = (if slowDown g then gapCoefficient * 2 else gapCoefficient) \<and>
         o_width ob = t_width type * real_of_int (o_size ob) \<and>
         minGap = Math_round (o_width ob * speed + t_minGap type * o_gapCoefficient ob)"
proof -
  have mx: "maxGap = Obstacle_maxGap g minGap"
    by (simp add: assms(6) Obstacle_maxGap_def assms(2))
  have gp: "gap = getRandomNum (rnd (j - 1)) minGap maxGap"
    by (simp add: assms(7) getGap_def Let_def assms(4) [symmetric] mx)
  from maxGap_range [OF assms(2) assms(5)] mx
  have rng: "minGap \<le> maxGap" "real_of_int maxGap \<le> 3 / 2 * real_of_int minGap + 1 / 2"
    by simp_all
  from assms(1) have r: "0 \<le> rnd (j - 1)" "rnd (j - 1) < 1"
    by (simp_all add: valid_random_def)
  from getRandomNum_range [OF r rng(1)] gp
  have b: "minGap \<le> gap" "gap \<le> maxGap" by simp_all
  have u: "\<forall>k. gap = k \<longleftrightarrow>
              real_of_int (k - minGap) \<le> rnd (j - 1) * real_of_int (maxGap - minGap + 1) \<and>
              rnd (j - 1) * real_of_int (maxGap - minGap + 1) < real_of_int (k - minGap + 1)"
    unfolding gp by (intro allI getRandomNum_eq_iff)
  from new_Obstacle_gap [OF assms(3)]
  have n: "o_gap ob = (if audioCues g then gap * 2 else gap)"
    "o_gapCoefficient ob = (if slowDown g then gapCoefficient * 2 else gapCoefficient)"
    "o_width ob = t_width type * real_of_int (o_size ob)" "o_typeConfig ob = type"
    unfolding assms(7) by simp_all
  have m: "minGap = Math_round (o_width ob * speed + t_minGap type * o_gapCoefficient ob)"
    by (simp add: assms(4) Obstacle_minGap_def n(4))
  from n(1,2,3) b rng(2) u m show ?thesis by blast
qed

theorem C2_gap_range_witness:
  "valid_random cactus_draws \<and> MAX_GAP_COEFFICIENT originalStatics = 3 / 2 \<and>
   new_Obstacle originalStatics cactus_draws 0 CACTUS_SMALL 600 (6 / 10) (121 / 20) 17
     = Inr (spawned_cactus, 2) \<and>
   Obstacle_minGap spawned_cactus (o_gapCoefficient spawned_cactus) (121 / 20) = 175 \<and>
   Math_round (real_of_int 175 * (3 / 2)) = 263 \<and>
   o_gap spawned_cactus = getGap originalStatics (cactus_draws (2 - 1)) spawned_cactus
       (o_gapCoefficient spawned_cactus) (121 / 20) \<and>
   175 \<le> o_gap spawned_cactus \<and> o_gap spawned_cactus \<le> 263"
proof -
  have v: "valid_random cactus_draws"
    by (simp add: valid_random_def cactus_draws_def)
  have c: "MAX_GAP_COEFFICIENT originalStatics = 3 / 2"
    by (simp add: originalStatics_def)
  have m: "175 = Obstacle_minGap spawned_cactus (o_gapCoefficient spawned_cactus) (121 / 20)"
    by (simp add: Obstacle_minGap_def Math_round_def spawned_cactus_def CACTUS_SMALL_def)
  have x: "263 = Math_round (real_of_int 175 * (3 / 2))"
    by (simp add: Math_round_def)
  have a: "\<not> audioCues originalStatics"
    by (simp add: originalStatics_def)
  have z: "(0::int) \<le> 175" by simp
  note T = C2_gap_range [OF v c spawned_cactus_eq m z x refl]
  from T [THEN conjunct1] a have w1: "o_gap spawned_cactus =
      getGap originalStatics (cactus_draws (2 - 1)) spawned_cactus
        (o_gapCoefficient spawned_cactus) (121 / 20)"
    by (simp only: if_False)
  from T [THEN conjunct2, THEN conjunct1]
  have w2: "175 \<le> o_gap spawned_cactus" unfolding w1 .
  from T [THEN conjunct2, THEN conjunct2, THEN conjunct1]
  have w3: "o_gap spawned_cactus \<le> 263" unfolding w1 .
  from v c spawned_cactus_eq m [symmetric] x [symmetric] w1 w2 w3
  show ?thesis by (intro conjI)
qed

section \<open>Horizon: the spawner\<close>




declare addNewObstacle.simps(2) [simp del]

lemma addNewObstacle_unfold:
  assumes "obstacleCount_of g this = Some n" "candidate g rnd n i = Some t"
  shows "addNewObstacle g rnd i this s (Suc d) =
    (if rejected this n s t
     then addNewObstacle g rnd (if n > 0 then Suc i else i) this s d
     else (case new_Obstacle g rnd (if n > 0 then Suc i else i) t (h_dimensions_WIDTH this)
                  (h_gapCoefficient this) s (t_width t) of
             Inl e \<Rightarrow> Inl e
           | Inr (ob, i2) \<Rightarrow> Inr (pushObstacle this ob, i2)))"
  using assms
  by (simp add: addNewObstacle.simps(2) candidate_def rejected_def Let_def)

lemma init_boxes_ok:
  "o_size this > 1 \<longrightarrow> 3 \<le> length (o_collisionBoxes this) \<Longrightarrow> \<exists>this'. init_boxes this = Inr this'"
  by (auto simp: init_boxes_def adjustCollisionBoxes_def split: list.splits)

lemma init_size_boxes:
  "o_collisionBoxes (init_size this0 speed) = t_collisionBoxes (o_typeConfig this0) \<and>
   (o_size (init_size this0 speed) > 1 \<longrightarrow>
      \<not> (\<exists>m. t_multipleSpeed (o_typeConfig this0) = Some m \<and> m > speed))"
  by (auto simp: init_size_def Let_def split: option.splits)

lemma new_Obstacle_returns:
  assumes "3 \<le> length (t_collisionBoxes type) \<or> (\<exists>m. t_multipleSpeed type = Some m \<and> m > speed)"
  shows "\<exists>ob j. new_Obstacle g rnd i type W gc speed xo = Inr (ob, j)"
proof -
  let ?obj = "\<lparr>o_typeConfig = type,
        o_gapCoefficient = (if slowDown g then gc * 2 else gc),
        o_size = getRandomNum (rnd i) 1 (MAX_OBSTACLE_LENGTH g),
        o_remove = False, o_xPos = W + xo, o_yPos = Some 0, o_width = 0,
        o_collisionBoxes = [], o_gap = 0, o_speedOffset = 0,
        o_followingObstacleCreated = False\<rparr>"
  obtain this1 i1 where y: "init_yPos g rnd (Suc i) (init_size ?obj speed) = (this1, i1)"
    by (cases "init_yPos g rnd (Suc i) (init_size ?obj speed)") auto
  from init_size_boxes [of ?obj speed] init_yPos_fields [OF y] assms
  have "o_size this1 > 1 \<longrightarrow> 3 \<le> length (o_collisionBoxes this1)"
    by auto
  from init_boxes_ok [OF this] obtain this2 where b: "init_boxes this1 = Inr this2" ..
  obtain this3 i3 where so: "init_speedOffset rnd i1 this2 = (this3, i3)"
    by (cases "init_speedOffset rnd i1 this2") auto
  obtain ob j where gp: "init_gap g rnd i3 this3 speed = (ob, j)"
    by (cases "init_gap g rnd i3 this3 speed") auto
  from y b so gp have "new_Obstacle g rnd i type W gc speed xo = Inr (ob, j)"
    by (simp add: new_Obstacle_def Obstacle_init_def)
  then show ?thesis by blast
qed

lemma pushObstacle_fields:
  "h_obstacles (pushObstacle this ob) = h_obstacles this @ [ob] \<and>
   h_altGameModeActive (pushObstacle this ob) = h_altGameModeActive this \<and>
   h_obstacleHistory (pushObstacle this ob) =
     take 2 (t_type (o_typeConfig ob) # h_obstacleHistory this)"
  by (cases "h_obstacleHistory this") (simp_all add: pushObstacle_def Let_def MAX_OBSTACLE_DUPLICATION_def)


lemma addNewObstacle_accept:
  assumes "obstacleCount_of g this = Some n" "candidate g rnd n i = Some t"
    and "\<not> rejected this n s t" and "t \<in> set (Obstacle_types g)" and "boxes_fit g s"
  shows "\<exists>ob j. addNewObstacle g rnd i this s (Suc d) = Inr (pushObstacle this ob, j) \<and>
           o_typeConfig ob = t \<and>
           new_Obstacle g rnd (if n > 0 then Suc i else i) t (h_dimensions_WIDTH this)
             (h_gapCoefficient this) s (t_width t) = Inr (ob, j)"
proof -
  from assms(4,5)
  have "3 \<le> length (t_collisionBoxes t) \<or> (\<exists>m. t_multipleSpeed t = Some m \<and> m > s)"
    by (auto simp: boxes_fit_def)
  from new_Obstacle_returns [OF this]
  obtain ob j where n: "new_Obstacle g rnd (if n > 0 then Suc i else i) t (h_dimensions_WIDTH this)
                  (h_gapCoefficient this) s (t_width t) = Inr (ob, j)"
    by blast
  from new_Obstacle_gap [OF n] have "o_typeConfig ob = t" by simp
  with n assms(3) show ?thesis
    by (auto simp: addNewObstacle_unfold [OF assms(1,2)])
qed



text \<open>A call that returns has appended one obstacle, of a type that passes the test.\<close>

lemma addNewObstacle_returns:
  assumes "addNewObstacle g rnd i this s d = Inr (h', j)"
  shows "\<exists>ob n. obstacleCount_of g this = Some n \<and> h' = pushObstacle this ob \<and>
           \<not> rejected this n s (o_typeConfig ob)"
  using assms
proof (induction d arbitrary: i)
  case 0
  then show ?case by simp
next
  case (Suc d)
  show ?case
  proof (cases "obstacleCount_of g this")
    case None
    with Suc.prems show ?thesis by (simp add: addNewObstacle.simps(2))
  next
    case (Some n)
    note oc = Some
    show ?thesis
    proof (cases "candidate g rnd n i")
      case None
      with Suc.prems oc show ?thesis by (simp add: addNewObstacle.simps(2) candidate_def Let_def)
    next
      case (Some t)
      note c = Some
      show ?thesis
      proof (cases "rejected this n s t")
        case True
        with Suc.prems
        have "addNewObstacle g rnd (if n > 0 then Suc i else i) this s d = Inr (h', j)"
          by (simp add: addNewObstacle_unfold [OF oc c])
        from Suc.IH [OF this] show ?thesis .
      next
        case False
        with Suc.prems
        have b: "(case new_Obstacle g rnd (if n > 0 then Suc i else i) t (h_dimensions_WIDTH this)
                               (h_gapCoefficient this) s (t_width t) of
                          Inl e \<Rightarrow> Inl e
                        | Inr (ob, i2) \<Rightarrow> Inr (pushObstacle this ob, i2)) = Inr (h', j)"
          by (simp add: addNewObstacle_unfold [OF oc c])
        then obtain ob where n: "new_Obstacle g rnd (if n > 0 then Suc i else i) t
              (h_dimensions_WIDTH this) (h_gapCoefficient this) s (t_width t) = Inr (ob, j)"
            and h: "h' = pushObstacle this ob"
          by (auto split: sum.splits)
        from new_Obstacle_gap [OF n] have "o_typeConfig ob = t" by simp
        with False h oc show ?thesis by blast
      qed
    qed
  qed
qed





lemma original_obstacleCount:
  "obstacleCount_of originalStatics new_Horizon = Some 2"
  by (simp add: obstacleCount_of_def originalStatics_def original_OBSTACLES_def new_Horizon_def
      js_index_def COLLECTABLE_def)

lemma original_boxes_fit: "s < 999 \<Longrightarrow> boxes_fit originalStatics s"
  by (simp add: boxes_fit_def originalStatics_def original_OBSTACLES_def CACTUS_SMALL_def
      CACTUS_LARGE_def PTERODACTYL_def COLLECTABLE_def)




section \<open>Horizon: no type three times in a row\<close>

lemma duplicateObstacleCheck_iff:
  assumes "length (h_obstacleHistory this) \<le> 2"
  shows "duplicateObstacleCheck this t \<longleftrightarrow> h_obstacleHistory this = [t, t]"
proof -
  from assms consider "h_obstacleHistory this = []" | a where "h_obstacleHistory this = [a]"
    | a b where "h_obstacleHistory this = [a, b]"
    by (cases "h_obstacleHistory this"; cases "tl (h_obstacleHistory this)";
        cases "tl (tl (h_obstacleHistory this))") auto
  then show ?thesis
    by cases (auto simp: duplicateObstacleCheck_def MAX_OBSTACLE_DUPLICATION_def Let_def)
qed

lemma obstacleCount_of_cong:
  "h_altGameModeActive a = h_altGameModeActive b \<Longrightarrow> obstacleCount_of g a = obstacleCount_of g b"
  by (simp add: obstacleCount_of_def split: option.splits)

lemma no_triple_nth:
  "no_triple xs \<Longrightarrow> k + 2 < length xs \<Longrightarrow>
     \<not> (xs ! k = xs ! (k + 1) \<and> xs ! (k + 1) = xs ! (k + 2))"
proof (induction xs arbitrary: k rule: no_triple.induct)
  case (1 a b c xs)
  show ?case
  proof (cases k)
    case 0
    with 1(2) show ?thesis by simp
  next
    case (Suc k')
    with 1(1) [of k'] 1(2,3) show ?thesis by simp
  qed
qed simp_all

lemma no_triple_step:
  assumes "length hist \<le> 2" "hist \<noteq> [t, t]" "no_triple (rev (take 2 (t # hist)) @ ts)"
  shows "no_triple (rev hist @ t # ts)"
proof -
  from assms(1) consider "hist = []" | a where "hist = [a]" | a b where "hist = [a, b]"
    by (cases hist; cases "tl hist"; cases "tl (tl hist)") auto
  then show ?thesis
  proof cases
    case 1
    with assms(3) show ?thesis by simp
  next
    case 2
    with assms(3) show ?thesis by simp
  next
    case 3
    with assms(2,3) show ?thesis by auto
  qed
qed

lemma obstacleCount_positive:
  "3 \<le> length (Obstacle_types g) \<Longrightarrow> \<exists>n. obstacleCount_of g this = Some n \<and> n > 0"
  by (auto simp: obstacleCount_of_def js_index_def)

lemma spawnSeq_no_triple:
  assumes "length (h_obstacleHistory this) \<le> 2"
    and "\<forall>(g, alt, s) \<in> set calls.
           \<exists>n. obstacleCount_of g (this\<lparr>h_altGameModeActive := alt\<rparr>) = Some n \<and> n > 0"
    and "spawnSeq d rnd i this calls = Some (types, this', j)"
  shows "no_triple (rev (h_obstacleHistory this) @ types) \<and> length types = length calls \<and>
         h_obstacleHistory this' = take 2 (rev types @ h_obstacleHistory this)"
  using assms
proof (induction calls arbitrary: i this types)
  case Nil
  then have "no_triple (rev (h_obstacleHistory this))"
    by (cases "h_obstacleHistory this"; cases "tl (h_obstacleHistory this)";
        cases "tl (tl (h_obstacleHistory this))") auto
  with Nil show ?case by auto
next
  case (Cons call calls)
  obtain g alt s where call: "call = (g, alt, s)" by (cases call)
  let ?h = "this\<lparr>h_altGameModeActive := alt\<rparr>"
  have hist: "h_obstacleHistory ?h = h_obstacleHistory this" by simp
  from Cons.prems(3) call obtain this1 i1 types1 where
    a: "addNewObstacle g rnd i ?h s d = Inr (this1, i1)" and
    r: "spawnSeq d rnd i1 this1 calls = Some (types1, this', j)" and
    t: "types = t_type (o_typeConfig (last (h_obstacles this1))) # types1"
    by (auto split: option.splits sum.splits prod.splits)
  from Cons.prems(2) call obtain n where n: "obstacleCount_of g ?h = Some n" "n > 0"
    by auto
  from addNewObstacle_returns [OF a] n obtain ob where
    p: "this1 = pushObstacle ?h ob" and nr: "\<not> rejected ?h n s (o_typeConfig ob)"
    by auto
  let ?t = "t_type (o_typeConfig ob)"
  from p pushObstacle_fields [of ?h ob]
  have l: "last (h_obstacles this1) = ob"
    and h1: "h_obstacleHistory this1 = take 2 (?t # h_obstacleHistory this)"
    by simp_all
  from nr n(2) have "\<not> duplicateObstacleCheck ?h ?t" by (simp add: rejected_def)
  with duplicateObstacleCheck_iff [of ?h ?t] Cons.prems(1)
  have nd: "h_obstacleHistory this \<noteq> [?t, ?t]" by simp
  have len1: "length (h_obstacleHistory this1) \<le> 2" by (simp add: h1)
  have oc1: "\<forall>(g, alt, s) \<in> set calls.
      \<exists>n. obstacleCount_of g (this1\<lparr>h_altGameModeActive := alt\<rparr>) = Some n \<and> n > 0"
  proof (intro ballI, clarify)
    fix g' alt' s'
    assume "(g', alt', s') \<in> set calls"
    with Cons.prems(2) obtain n' where
      "obstacleCount_of g' (this\<lparr>h_altGameModeActive := alt'\<rparr>) = Some n'" "n' > 0"
      by auto
    moreover have "obstacleCount_of g' (this1\<lparr>h_altGameModeActive := alt'\<rparr>)
        = obstacleCount_of g' (this\<lparr>h_altGameModeActive := alt'\<rparr>)"
      by (rule obstacleCount_of_cong) simp
    ultimately show "\<exists>n. obstacleCount_of g' (this1\<lparr>h_altGameModeActive := alt'\<rparr>) = Some n \<and> n > 0"
      by simp
  qed
  from Cons.IH [OF len1 oc1 r]
  have ih: "no_triple (rev (h_obstacleHistory this1) @ types1)"
    "length types1 = length calls"
    "h_obstacleHistory this' = take 2 (rev types1 @ h_obstacleHistory this1)"
    by simp_all
  from no_triple_step [OF Cons.prems(1) nd ih(1) [unfolded h1]]
  have 1: "no_triple (rev (h_obstacleHistory this) @ types)" by (simp add: t l)
  have 2: "length types = length (call # calls)" by (simp add: t ih(2))
  have 3: "h_obstacleHistory this' = take 2 (rev types @ h_obstacleHistory this)"
    by (simp add: ih(3) h1 t l take_Cons' min_def split: if_splits)
  from 1 2 3 show ?case by blast
qed

text \<open>
  Claim C3. In every sequence of obstacles that the spawner produces, starting from the
  empty history, with more than one type selectable at each call (\<open>obstacleCount > 0\<close>,
  which holds for every table of three types or more, as both tables of the source
  are: \<open>obstacleCount_positive\<close>), no type appears more than 2 times in a row. The
  history buffer keeps the last two types; a candidate is rejected by the duplicate
  check exactly when the history holds its type twice, and a rejected candidate is
  never the one appended.
\<close>

theorem C3_no_three_in_a_row:
  assumes "h_obstacleHistory this = []"
    and "\<forall>(g, alt, s) \<in> set calls.
           \<exists>n. obstacleCount_of g (this\<lparr>h_altGameModeActive := alt\<rparr>) = Some n \<and> n > 0"
    and "spawnSeq d rnd i this calls = Some (types, this', j)"
  shows "(\<forall>k. k + 2 < length types \<longrightarrow>
            \<not> (types ! k = types ! (k + 1) \<and> types ! (k + 1) = types ! (k + 2))) \<and>
         length types = length calls \<and>
         h_obstacleHistory this' = take 2 (rev types) \<and>
         (\<forall>t. duplicateObstacleCheck this' t \<longleftrightarrow> h_obstacleHistory this' = [t, t])"
proof -
  from assms(1) have "length (h_obstacleHistory this) \<le> 2" by simp
  from spawnSeq_no_triple [OF this assms(2,3)] assms(1)
  have nt: "no_triple types" and len: "length types = length calls"
    and h: "h_obstacleHistory this' = take 2 (rev types)"
    by simp_all
  from h have "length (h_obstacleHistory this') \<le> 2" by simp
  from duplicateObstacleCheck_iff [OF this] no_triple_nth [OF nt] len h
  show ?thesis by blast
qed

lemma new_Obstacle_position:
  assumes "new_Obstacle g rnd i type W gc s xo = Inr (ob, j)"
    and "t_yPos type = FixedY v" and "t_speedOffset type = None"
  shows "j = i + 2"
proof -
  let ?obj = "\<lparr>o_typeConfig = type,
        o_gapCoefficient = (if slowDown g then gc * 2 else gc),
        o_size = getRandomNum (rnd i) 1 (MAX_OBSTACLE_LENGTH g),
        o_remove = False, o_xPos = W + xo, o_yPos = Some 0, o_width = 0,
        o_collisionBoxes = [], o_gap = 0, o_speedOffset = 0,
        o_followingObstacleCreated = False\<rparr>"
  have t0: "o_typeConfig (init_size ?obj s) = type"
    using init_size_fields [of ?obj s] by simp
  have y: "init_yPos g rnd (Suc i) (init_size ?obj s)
      = ((init_size ?obj s)\<lparr>o_yPos := Some v\<rparr>, Suc i)"
    by (simp add: init_yPos_def t0 assms(2))
  from assms(1) y obtain this2 where
    b: "init_boxes ((init_size ?obj s)\<lparr>o_yPos := Some v\<rparr>) = Inr this2"
    by (auto simp: new_Obstacle_def Obstacle_init_def split: sum.splits)
  from init_boxes_fields [OF b] t0 have t2: "o_typeConfig this2 = type" by simp
  have so: "init_speedOffset rnd (Suc i) this2 = (this2, Suc i)"
    by (simp add: init_speedOffset_def t2 assms(3))
  from assms(1) y b so have "init_gap g rnd (Suc i) this2 s = (ob, j)"
    by (simp add: new_Obstacle_def Obstacle_init_def)
  from init_gap_fields [OF this] show ?thesis by simp
qed

theorem C3_no_three_in_a_row_witness:
  "h_obstacleHistory new_Horizon = [] \<and>
   obstacleCount_of originalStatics (new_Horizon\<lparr>h_altGameModeActive := False\<rparr>) = Some 2 \<and>
   (\<exists>this' j. spawnSeq 10 three_draws 0 new_Horizon
        [(originalStatics, False, 6), (originalStatics, False, 6), (originalStatics, False, 6)]
      = Some ([''CACTUS_SMALL'', ''CACTUS_SMALL'', ''CACTUS_LARGE''], this', j) \<and>
      h_obstacleHistory this' = [''CACTUS_LARGE'', ''CACTUS_SMALL''])"
proof -
  let ?g = originalStatics
  have v: "valid_random three_draws"
    by (simp add: valid_random_def three_draws_def)
  have bf: "boxes_fit ?g 6"
    by (rule original_boxes_fit) simp
  have h0: "h_obstacleHistory new_Horizon = []"
    by (simp add: new_Horizon_def)
  have alt0: "new_Horizon\<lparr>h_altGameModeActive := False\<rparr> = new_Horizon"
    by (simp add: new_Horizon_def)
  have oc0: "obstacleCount_of ?g new_Horizon = Some 2"
    by (rule original_obstacleCount)
  have cs: "t_yPos CACTUS_SMALL = FixedY 105" "t_speedOffset CACTUS_SMALL = None"
    "t_type CACTUS_SMALL = ''CACTUS_SMALL''" "t_minSpeed CACTUS_SMALL = 0"
    "CACTUS_SMALL \<in> set (Obstacle_types ?g)"
    by (simp_all add: CACTUS_SMALL_def originalStatics_def original_OBSTACLES_def)
  have cl: "t_yPos CACTUS_LARGE = FixedY 90" "t_speedOffset CACTUS_LARGE = None"
    "t_type CACTUS_LARGE = ''CACTUS_LARGE''" "t_minSpeed CACTUS_LARGE = 0"
    "CACTUS_LARGE \<in> set (Obstacle_types ?g)"
    by (simp_all add: CACTUS_LARGE_def originalStatics_def original_OBSTACLES_def)
  have cand: "candidate ?g three_draws 2 0 = Some CACTUS_SMALL"
    "candidate ?g three_draws 2 3 = Some CACTUS_SMALL"
    "candidate ?g three_draws 2 6 = Some CACTUS_SMALL"
    "candidate ?g three_draws 2 7 = Some CACTUS_LARGE"
    by (simp_all add: candidate_def three_draws_def getRandomNum_def js_index_def
        originalStatics_def original_OBSTACLES_def)
  have r1: "\<not> rejected new_Horizon 2 6 CACTUS_SMALL"
    by (simp add: rejected_def cs duplicateObstacleCheck_iff h0)
  from addNewObstacle_accept [OF oc0 cand(1) r1 cs(5) bf, of 9] obtain ob1 j1 where
    a1: "addNewObstacle ?g three_draws 0 new_Horizon 6 10 = Inr (pushObstacle new_Horizon ob1, j1)"
    and t1: "o_typeConfig ob1 = CACTUS_SMALL"
    and n1: "new_Obstacle ?g three_draws (Suc 0) CACTUS_SMALL (h_dimensions_WIDTH new_Horizon)
             (h_gapCoefficient new_Horizon) 6 (t_width CACTUS_SMALL) = Inr (ob1, j1)"
    by auto
  from new_Obstacle_position [OF n1 cs(1,2)] have j1: "j1 = 3" by simp
  define H1 where "H1 = pushObstacle new_Horizon ob1"
  from pushObstacle_fields [of new_Horizon ob1] t1 h0 cs(3)
  have h1: "h_obstacleHistory H1 = [''CACTUS_SMALL'']" "last (h_obstacles H1) = ob1"
    "h_altGameModeActive H1 = h_altGameModeActive new_Horizon"
    by (simp_all add: H1_def)
  have alt1: "H1\<lparr>h_altGameModeActive := False\<rparr> = H1"
    using h1(3) by (simp add: new_Horizon_def)
  have oc1: "obstacleCount_of ?g H1 = Some 2"
    using obstacleCount_of_cong [OF h1(3)] oc0 by simp
  have r2: "\<not> rejected H1 2 6 CACTUS_SMALL"
    by (simp add: rejected_def cs duplicateObstacleCheck_iff h1)
  from addNewObstacle_accept [OF oc1 cand(2) r2 cs(5) bf, of 9] obtain ob2 j2 where
    a2: "addNewObstacle ?g three_draws 3 H1 6 10 = Inr (pushObstacle H1 ob2, j2)"
    and t2: "o_typeConfig ob2 = CACTUS_SMALL"
    and n2: "new_Obstacle ?g three_draws (Suc 3) CACTUS_SMALL (h_dimensions_WIDTH H1)
             (h_gapCoefficient H1) 6 (t_width CACTUS_SMALL) = Inr (ob2, j2)"
    by auto
  from new_Obstacle_position [OF n2 cs(1,2)] have j2: "j2 = 6" by simp
  define H2 where "H2 = pushObstacle H1 ob2"
  from pushObstacle_fields [of H1 ob2] t2 h1 cs(3)
  have h2: "h_obstacleHistory H2 = [''CACTUS_SMALL'', ''CACTUS_SMALL'']"
    "last (h_obstacles H2) = ob2" "h_altGameModeActive H2 = h_altGameModeActive new_Horizon"
    by (simp_all add: H2_def)
  have alt2: "H2\<lparr>h_altGameModeActive := False\<rparr> = H2"
    using h2(3) by (simp add: new_Horizon_def)
  have oc2: "obstacleCount_of ?g H2 = Some 2"
    using obstacleCount_of_cong [OF h2(3)] oc0 by simp
  have r3: "rejected H2 2 6 CACTUS_SMALL"
    by (simp add: rejected_def cs duplicateObstacleCheck_iff h2)
  have r4: "\<not> rejected H2 2 6 CACTUS_LARGE"
    by (simp add: rejected_def cl duplicateObstacleCheck_iff h2)
  from addNewObstacle_unfold [OF oc2 cand(3), of 6 9] r3
  have retry: "addNewObstacle ?g three_draws 6 H2 6 10 = addNewObstacle ?g three_draws 7 H2 6 9"
    by simp
  from addNewObstacle_accept [OF oc2 cand(4) r4 cl(5) bf, of 8] obtain ob3 j3 where
    a3: "addNewObstacle ?g three_draws 7 H2 6 9 = Inr (pushObstacle H2 ob3, j3)"
    and t3: "o_typeConfig ob3 = CACTUS_LARGE"
    by auto
  define H3 where "H3 = pushObstacle H2 ob3"
  from pushObstacle_fields [of H2 ob3] t3 h2 cl(3)
  have h3: "h_obstacleHistory H3 = [''CACTUS_LARGE'', ''CACTUS_SMALL'']"
    "last (h_obstacles H3) = ob3"
    by (simp_all add: H3_def)
  have s3: "spawnSeq 10 three_draws 6 H2 [(?g, False, 6)] = Some ([''CACTUS_LARGE''], H3, j3)"
    using retry a3 h3(2) t3 cl(3) by (simp add: H3_def alt2)
  have s2: "spawnSeq 10 three_draws 3 H1 [(?g, False, 6), (?g, False, 6)]
      = Some ([''CACTUS_SMALL'', ''CACTUS_LARGE''], H3, j3)"
    using a2 j2 s3 h2(2) t2 cs(3) by (simp add: H2_def alt1)
  have s1: "spawnSeq 10 three_draws 0 new_Horizon [(?g, False, 6), (?g, False, 6), (?g, False, 6)]
      = Some ([''CACTUS_SMALL'', ''CACTUS_SMALL'', ''CACTUS_LARGE''], H3, j3)"
    using a1 j1 s2 h1(2) t1 cs(3) by (simp add: H1_def alt0)
  have oc0': "obstacleCount_of ?g (new_Horizon\<lparr>h_altGameModeActive := False\<rparr>) = Some 2"
    by (simp add: alt0 oc0)
  then have hyp2: "\<forall>(g, alt, s) \<in> set [(?g, False, 6), (?g, False, 6), (?g, False, 6)].
       \<exists>n. obstacleCount_of g (new_Horizon\<lparr>h_altGameModeActive := alt\<rparr>) = Some n \<and> n > 0"
    by simp
  from C3_no_three_in_a_row [OF h0 hyp2 s1] have "h_obstacleHistory H3 = take 2 (rev
      [''CACTUS_SMALL'', ''CACTUS_SMALL'', ''CACTUS_LARGE''])"
    by blast
  then have "h_obstacleHistory H3 = [''CACTUS_LARGE'', ''CACTUS_SMALL'']" by simp
  with h0 oc0' s1 show ?thesis by blast
qed

end
